theory Spec2Isabelle
  imports Complex_Main
begin

section \<open>The job registry (backend/job\_manager.py)\<close>

text \<open>
  A job is the dictionary built by \<open>create_job\<close>. Timestamps are the values of
  \<open>time.time()\<close>, passed in by the caller of the model; the job id is the value of
  \<open>uuid.uuid4()\<close>, passed in as well. The registry \<open>_jobs\<close> is a map from ids to jobs.
  Every method runs under the registry's lock, so an operation is one atomic step.
\<close>

record job =
  job_id :: string
  job_type :: string
  job_status :: string
  total_rows :: int
  processed_rows :: int
  success_rows :: int
  error_rows :: int
  created_at :: real
  started_at :: "real option"
  finished_at :: "real option"
  job_message :: "string option"
  output_path :: "string option"
  output_filename :: "string option"
  errors :: "string list"
  metadata :: "(string \<times> string) list"

type_synonym registry = "string \<rightharpoonup> job"

text \<open>Python's \<open>xs[-10:]\<close>: the last ten elements, or all of them when there are fewer.\<close>

definition last_ten :: "'a list \<Rightarrow> 'a list" where
  "last_ten xs = drop (length xs - 10) xs"

text \<open>Truthiness of an optional string: \<open>None\<close> and the empty string are false.\<close>

fun truthy :: "string option \<Rightarrow> bool" where
  "truthy None = False"
| "truthy (Some s) = (s \<noteq> [])"

definition create_job ::
  "string \<Rightarrow> real \<Rightarrow> string \<Rightarrow> int \<Rightarrow> (string \<times> string) list option \<Rightarrow> registry \<Rightarrow> registry" where
  "create_job new_id now jtype nrows meta jobs =
     jobs(new_id \<mapsto>
       \<lparr> job_id = new_id, job_type = jtype, job_status = ''pending'', total_rows = nrows,
         processed_rows = 0, success_rows = 0, error_rows = 0, created_at = now,
         started_at = None, finished_at = None, job_message = None, output_path = None,
         output_filename = None, errors = [],
         metadata = (case meta of None \<Rightarrow> [] | Some m \<Rightarrow> m) \<rparr>)"

definition start_job :: "string \<Rightarrow> real \<Rightarrow> registry \<Rightarrow> registry" where
  "start_job jid now jobs =
     (case jobs jid of
        None \<Rightarrow> jobs
      | Some j \<Rightarrow> jobs(jid \<mapsto> j\<lparr>job_status := ''running'', started_at := Some now\<rparr>))"

definition increment ::
  "string \<Rightarrow> bool \<Rightarrow> string option \<Rightarrow> string option \<Rightarrow> registry \<Rightarrow> registry" where
  "increment jid success msg error_detail jobs =
     (case jobs jid of
        None \<Rightarrow> jobs
      | Some j \<Rightarrow>
          (let j1 = j\<lparr>processed_rows := processed_rows j + 1\<rparr>;
               j2 = (if success then j1\<lparr>success_rows := success_rows j1 + 1\<rparr>
                     else (let j' = j1\<lparr>error_rows := error_rows j1 + 1\<rparr>
                           in if truthy error_detail
                              then j'\<lparr>errors := last_ten (errors j' @ [the error_detail])\<rparr>
                              else j'));
               j3 = (if truthy msg then j2\<lparr>job_message := msg\<rparr> else j2)
           in jobs(jid \<mapsto> j3)))"

definition complete_job :: "string \<Rightarrow> real \<Rightarrow> string \<Rightarrow> string \<Rightarrow> registry \<Rightarrow> registry" where
  "complete_job jid now path filename jobs =
     (case jobs jid of
        None \<Rightarrow> jobs
      | Some j \<Rightarrow>
          jobs(jid \<mapsto> j\<lparr>job_status := ''completed'', finished_at := Some now,
                          output_path := Some path, output_filename := Some filename\<rparr>))"

definition fail_job :: "string \<Rightarrow> real \<Rightarrow> string \<Rightarrow> registry \<Rightarrow> registry" where
  "fail_job jid now error_detail jobs =
     (case jobs jid of
        None \<Rightarrow> jobs
      | Some j \<Rightarrow>
          jobs(jid \<mapsto> j\<lparr>job_status := ''failed'', finished_at := Some now,
                          job_message := Some error_detail,
                          errors := last_ten (errors j @ [error_detail])\<rparr>))"

definition get_job :: "string \<Rightarrow> registry \<Rightarrow> job option" where
  "get_job jid jobs = jobs jid"

text \<open>One call on the registry, with the values the call reads from its environment.\<close>

datatype job_op =
    Create_job string real string int "(string \<times> string) list option"
  | Start_job string real
  | Increment string bool "string option" "string option"
  | Complete_job string real string string
  | Fail_job string real string

fun exec_op :: "job_op \<Rightarrow> registry \<Rightarrow> registry" where
  "exec_op (Create_job new_id now jtype nrows meta) jobs = create_job new_id now jtype nrows meta jobs"
| "exec_op (Start_job jid now) jobs = start_job jid now jobs"
| "exec_op (Increment jid success msg err) jobs = increment jid success msg err jobs"
| "exec_op (Complete_job jid now path filename) jobs = complete_job jid now path filename jobs"
| "exec_op (Fail_job jid now err) jobs = fail_job jid now err jobs"

text \<open>Running a sequence of calls on a fresh \<open>JobManager\<close>, first call first.\<close>

fun run_ops :: "job_op list \<Rightarrow> registry \<Rightarrow> registry" where
  "run_ops [] jobs = jobs"
| "run_ops (x # xs) jobs = run_ops xs (exec_op x jobs)"

text \<open>
  The complete log of a job: every error string the calls have recorded for it since it
  was created, oldest first, with nothing dropped. It is the reference the truncated
  \<open>errors\<close> field is compared with. A string is recorded where the source appends it:
  in \<open>increment\<close> for a failed row with a non-empty \<open>error_detail\<close>, and in every
  \<open>fail_job\<close>; calls on an unknown id record nothing.
\<close>

fun log_op :: "job_op \<Rightarrow> (string \<rightharpoonup> string list) \<Rightarrow> (string \<rightharpoonup> string list)" where
  "log_op (Create_job new_id now jtype nrows meta) lg = lg(new_id \<mapsto> [])"
| "log_op (Increment jid success msg err) lg =
     (case lg jid of
        None \<Rightarrow> lg
      | Some h \<Rightarrow> if \<not> success \<and> truthy err then lg(jid \<mapsto> h @ [the err]) else lg)"
| "log_op (Fail_job jid now err) lg =
     (case lg jid of None \<Rightarrow> lg | Some h \<Rightarrow> lg(jid \<mapsto> h @ [err]))"
| "log_op (Start_job jid now) lg = lg"
| "log_op (Complete_job jid now path filename) lg = lg"

fun run_log :: "job_op list \<Rightarrow> (string \<rightharpoonup> string list) \<Rightarrow> (string \<rightharpoonup> string list)" where
  "run_log [] lg = lg"
| "run_log (x # xs) lg = run_log xs (log_op x lg)"

text \<open>The registry agrees with the complete log: same jobs, and each \<open>errors\<close> field is the
  last ten entries of the job's log.\<close>

definition tracks :: "registry \<Rightarrow> (string \<rightharpoonup> string list) \<Rightarrow> bool" where
  "tracks jobs lg =
     (\<forall>jid. case jobs jid of
              None \<Rightarrow> lg jid = None
            | Some j \<Rightarrow> (case lg jid of None \<Rightarrow> False | Some h \<Rightarrow> errors j = last_ten h))"

text \<open>A run that records eleven errors for one job, one of them through \<open>fail_job\<close>;
  a successful row and an empty \<open>error_detail\<close> record nothing.\<close>

definition demo_ops :: "job_op list" where
  "demo_ops =
     [Create_job ''j1'' 0 ''verify'' 12 None,
      Start_job ''j1'' 1,
      Increment ''j1'' False None (Some ''e01''),
      Increment ''j1'' False None (Some ''e02''),
      Increment ''j1'' True (Some ''ok'') (Some ''ignored''),
      Increment ''j1'' False None (Some ''e03''),
      Increment ''j1'' False None (Some ''e04''),
      Increment ''j1'' False None (Some ''''),
      Increment ''j1'' False None (Some ''e05''),
      Increment ''j1'' False None (Some ''e06''),
      Increment ''j1'' False None (Some ''e07''),
      Increment ''j1'' False None (Some ''e08''),
      Increment ''j1'' False None (Some ''e09''),
      Increment ''j1'' False None (Some ''e10''),
      Fail_job ''j1'' 2 ''e11'']"

section \<open>Strings as the verifier uses them\<close>

text \<open>
  Python strings are modelled as \<open>string\<close>; the characters the verifier tests for are all
  ASCII. \<open>lower\<close> is \<open>str.lower()\<close> on ASCII letters, \<open>contains s p\<close> is \<open>p in s\<close>,
  \<open>startswith\<close> and \<open>endswith\<close> are the methods of the same name.
\<close>

definition lower_char :: "char \<Rightarrow> char" where
  "lower_char c =
     (case map_of (zip ''ABCDEFGHIJKLMNOPQRSTUVWXYZ'' ''abcdefghijklmnopqrstuvwxyz'') c of
        None \<Rightarrow> c
      | Some d \<Rightarrow> d)"

definition lower :: "string \<Rightarrow> string" where
  "lower s = map lower_char s"

definition startswith :: "string \<Rightarrow> string \<Rightarrow> bool" where
  "startswith s p = (take (length p) s = p)"

definition endswith :: "string \<Rightarrow> string \<Rightarrow> bool" where
  "endswith s p = (length p \<le> length s \<and> drop (length s - length p) s = p)"

primrec contains :: "string \<Rightarrow> string \<Rightarrow> bool" where
  "contains [] p = (p = [])"
| "contains (c # cs) p = (startswith (c # cs) p \<or> contains cs p)"

text \<open>\<open>s.rstrip('.')\<close>: every trailing dot is removed.\<close>

definition rstrip_dot :: "string \<Rightarrow> string" where
  "rstrip_dot s = rev (dropWhile (\<lambda>c. c = CHR ''.'') (rev s))"

text \<open>\<open>s.strip()\<close>: ASCII white space is removed at both ends.\<close>

definition is_space :: "char \<Rightarrow> bool" where
  "is_space c = (let n = (of_char c :: nat) in n = 32 \<or> (9 \<le> n \<and> n \<le> 13))"

definition strip :: "string \<Rightarrow> string" where
  "strip s = rev (dropWhile is_space (rev (dropWhile is_space s)))"

text \<open>\<open>str(n)\<close> for an integer: decimal digits, with a minus sign when negative.\<close>

definition digit_char :: "nat \<Rightarrow> char" where
  "digit_char d = ''0123456789'' ! d"

function str_nat :: "nat \<Rightarrow> string" where
  "str_nat n = (if n < 10 then [digit_char n] else str_nat (n div 10) @ [digit_char (n mod 10)])"
  by pat_completeness auto
termination
  by (relation "measure (\<lambda>n. n)") auto

declare str_nat.simps [simp del]

definition str_int :: "int \<Rightarrow> string" where
  "str_int i = (if i < 0 then CHR ''-'' # str_nat (nat (- i)) else str_nat (nat i))"

text \<open>\<open>str(b)\<close> for a bytes object \<open>b\<close> of printable ASCII without quotes or backslashes:
  the text between \<open>b'\<close> and \<open>'\<close>. \<open>smtplib\<close> returns the text of a reply as bytes.\<close>

definition str_bytes :: "string \<Rightarrow> string" where
  "str_bytes b = ''b'' @ [CHR 0x27] @ b @ [CHR 0x27]"

text \<open>
  \<open>s.split('@', 1)\<close> unpacked into two names: the text before the first \<open>@\<close> and the text
  after it. Without an \<open>@\<close> the unpacking raises \<open>ValueError\<close>, here \<open>None\<close>.
\<close>

definition split_at :: "string \<Rightarrow> (string \<times> string) option" where
  "split_at s =
     (if CHR ''@'' \<in> set s
      then Some (takeWhile (\<lambda>c. c \<noteq> CHR ''@'') s, tl (dropWhile (\<lambda>c. c \<noteq> CHR ''@'') s))
      else None)"

section \<open>Regular expressions and the syntax gate\<close>

text \<open>
  The pattern of \<open>_check_syntax\<close> uses character classes, concatenation, \<open>+\<close> and
  \<open>{2,}\<close>. Matching is by derivatives: \<open>deriv c r\<close> matches what \<open>r\<close> matches after a
  leading \<open>c\<close>.
\<close>

datatype rexp =
    Zero
  | One
  | Chars "char \<Rightarrow> bool"
  | Alt rexp rexp
  | Seq rexp rexp
  | Star rexp

primrec nullable :: "rexp \<Rightarrow> bool" where
  "nullable Zero = False"
| "nullable One = True"
| "nullable (Chars p) = False"
| "nullable (Alt r s) = (nullable r \<or> nullable s)"
| "nullable (Seq r s) = (nullable r \<and> nullable s)"
| "nullable (Star r) = True"

primrec deriv :: "char \<Rightarrow> rexp \<Rightarrow> rexp" where
  "deriv c Zero = Zero"
| "deriv c One = Zero"
| "deriv c (Chars p) = (if p c then One else Zero)"
| "deriv c (Alt r s) = Alt (deriv c r) (deriv c s)"
| "deriv c (Seq r s) =
     (if nullable r then Alt (Seq (deriv c r) s) (deriv c s) else Seq (deriv c r) s)"
| "deriv c (Star r) = Seq (deriv c r) (Star r)"

primrec matches :: "rexp \<Rightarrow> string \<Rightarrow> bool" where
  "matches r [] = nullable r"
| "matches r (c # cs) = matches (deriv c r) cs"

definition Plus :: "rexp \<Rightarrow> rexp" where
  "Plus r = Seq r (Star r)"

definition AtLeast2 :: "rexp \<Rightarrow> rexp" where
  "AtLeast2 r = Seq r (Seq r (Star r))"

definition Chr :: "char \<Rightarrow> rexp" where
  "Chr c = Chars (\<lambda>d. d = c)"

definition is_alpha :: "char \<Rightarrow> bool" where
  "is_alpha c = (let n = (of_char c :: nat) in (65 \<le> n \<and> n \<le> 90) \<or> (97 \<le> n \<and> n \<le> 122))"

definition is_digit :: "char \<Rightarrow> bool" where
  "is_digit c = (let n = (of_char c :: nat) in 48 \<le> n \<and> n \<le> 57)"

text \<open>
  \<open>re.match('^...$', s)\<close>: the pattern must match from the start, and \<open>$\<close> matches at the
  end of the string or just before a newline that ends the string.
\<close>

definition re_match_to_end :: "rexp \<Rightarrow> string \<Rightarrow> bool" where
  "re_match_to_end r s =
     (matches r s \<or> (s \<noteq> [] \<and> last s = CHR 0x0A \<and> matches r (butlast s)))"

text \<open>The pattern \<^verbatim>\<open>^[a-zA-Z0-9._%+-]+@[a-zA-Z0-9.-]+\.[a-zA-Z]{2,}$\<close>.\<close>

definition local_class :: "char \<Rightarrow> bool" where
  "local_class c = (is_alpha c \<or> is_digit c \<or> c \<in> set ''._%+-'')"

definition domain_class :: "char \<Rightarrow> bool" where
  "domain_class c = (is_alpha c \<or> is_digit c \<or> c \<in> set ''.-'')"

definition email_pattern :: rexp where
  "email_pattern =
     Seq (Plus (Chars local_class))
       (Seq (Chr CHR ''@'')
         (Seq (Plus (Chars domain_class))
           (Seq (Chr CHR ''.'') (AtLeast2 (Chars is_alpha)))))"

record syntax_result =
  syntax_valid :: bool
  syntax_points :: int
  syntax_reason :: string

definition check_syntax :: "string \<Rightarrow> syntax_result" where
  "check_syntax email =
     (let valid = re_match_to_end email_pattern email
      in \<lparr> syntax_valid = valid,
           syntax_points = (if valid then 10 else 0),
           syntax_reason = (if valid then ''Valid syntax'' else ''Invalid syntax'') \<rparr>)"

section \<open>Numbers read from the clock\<close>

text \<open>
  Elapsed times are Python floats; they are modelled as real numbers. \<open>round2 x\<close> is
  \<open>round(x, 2)\<close>: Python rounds to the nearest value with two decimals, and a tie goes to
  the even neighbour.
\<close>

definition round_half_even :: "real \<Rightarrow> int" where
  "round_half_even x =
     (let f = \<lfloor>x\<rfloor>; d = x - of_int f
      in if d < 1 / 2 then f else if 1 / 2 < d then f + 1 else if even f then f else f + 1)"

definition round2 :: "real \<Rightarrow> real" where
  "round2 x = of_int (round_half_even (x * 100)) / 100"

section \<open>What the network answers\<close>

text \<open>
  Every probe of the verifier asks the network something and scores the answer. The model
  takes the answers as data: one value per call the source makes, so that two calls with
  the same arguments may be answered differently, as on a real network. A DNS query
  returns an answer or raises; the source tells \<open>NoAnswer\<close> and \<open>NXDOMAIN\<close> apart from
  the other exceptions of the resolver.
\<close>

datatype 'a dns_reply = Answer 'a | NoAnswer | NXDOMAIN | DNS_failure

fun answered :: "'a dns_reply \<Rightarrow> bool" where
  "answered (Answer x) = True"
| "answered r = False"

text \<open>The exceptions \<open>_check_smtp_rcpt\<close> tells apart, with the text of \<open>str(e)\<close> for the rest.\<close>

datatype smtp_exc = SMTPServerDisconnected | Socket_timeout | Other_exception string

text \<open>The greeting read from the raw socket, decoded and stripped, or an exception.\<close>

datatype greeting_obs = Banner string | Banner_error

text \<open>The \<open>smtplib\<close> session after the greeting: \<open>connect\<close> raises, or the session runs;
  \<open>tls_ok\<close> says that EHLO, the STARTTLS offer, \<open>starttls()\<close> and the second EHLO all
  succeeded, \<open>quit_ok\<close> that \<open>quit()\<close> did not raise.\<close>

datatype session_obs = Connect_failed | Session (tls_ok: bool) (quit_ok: bool)

text \<open>One pass of the loop over the MX hosts in \<open>_check_smtp_connection\<close>.\<close>

datatype port_obs =
    Port_error
  | Port_closed
  | Port_open_init_failed
  | Port_open greeting_obs session_obs

text \<open>
  The dialogue of \<open>_check_smtp_rcpt\<close>: the \<open>SMTP\<close> object cannot be built; an exception
  before the reply to RCPT TO; MAIL FROM refused (and QUIT went through); or a reply to
  RCPT TO, with its code, \<open>str(message)\<close>, the seconds elapsed since the connection
  started, and the exception of the following \<open>quit()\<close> if it raised.
\<close>

datatype rcpt_dialogue =
    Smtp_init_failed string
  | Failed_before_rcpt smtp_exc
  | Mail_from_refused
  | Rcpt_reply int string real "smtp_exc option"

record dns_world =
  a_lookup :: "unit dns_reply"
  mx_lookup :: "string list dns_reply"
  a_fallback :: "unit dns_reply"
  txt_lookup :: "string list dns_reply"
  dmarc_lookup :: "string list dns_reply"
  dkim_lookup :: "string \<Rightarrow> unit dns_reply"
  dns_time :: real

datatype whois_obs = Whois_skipped | Whois_no_date | Whois_age real

datatype mpf_obs =
    Mpf_init_failed
  | Mpf_session_failed
  | Mpf_caps bool bool bool bool bool

record certificate =
  subject_cn :: "string option"
  issuer_cn :: "string option"
  cert_expired :: bool

datatype tls_obs = Tls_skipped | Tls_ssl_error | Tls_no_cert | Tls_cert certificate

datatype ptr_obs = Ptr_skipped | Ptr_herror | Ptr_name string

datatype ip_obs = Ip_unresolved | Ip_listed | Ip_not_listed

datatype mxc_obs = Mxc_skipped | Mxc_broken | Mxc_perfect

datatype tls_policy_obs = Policy_skipped | Policy_ssl_error | Policy_cipher bool

datatype mailfrom_obs = Mailfrom_init_failed | Mailfrom_session_failed | Mailfrom_code int

datatype lb_obs = Lb_code int | Lb_code_quit_failed int | Lb_error | Lb_init_failed

datatype vrfy_obs = Vrfy_skipped | Vrfy_codes int int

datatype attempt_obs = Attempt_code int | Attempt_error | Attempt_init_failed

datatype quit_obs = Quit_skipped | Quit_raised | Quit_code int

record world =
  dns :: dns_world
  whois :: whois_obs
  conn :: "nat \<Rightarrow> port_obs"
  rcpt :: rcpt_dialogue
  deliv_txt :: "string list dns_reply"
  deliv_dmarc :: "string list dns_reply"
  deliv_dkim :: "string \<Rightarrow> unit dns_reply"
  web_https :: "int option"
  web_http :: "int option"
  mpf :: mpf_obs
  retry :: "nat \<Rightarrow> attempt_obs"
  tls_cert :: tls_obs
  ports :: "nat \<Rightarrow> bool"
  dnskey :: "unit dns_reply"
  ptr :: ptr_obs
  ip_rep :: ip_obs
  mxc :: mxc_obs
  tls_policy :: tls_policy_obs
  mailfrom :: mailfrom_obs
  loadbalancer :: "nat \<Rightarrow> lb_obs"
  vrfy :: vrfy_obs
  roles :: "string \<Rightarrow> attempt_obs"
  greylist :: "nat \<Rightarrow> attempt_obs"
  dbl :: "unit dns_reply"
  surbl :: "unit dns_reply"
  quit :: quit_obs
  tcp :: "nat \<Rightarrow> bool"
  random_string :: string
  catchall_conn :: "nat \<Rightarrow> port_obs"
  catchall_rcpt :: rcpt_dialogue
  enable_internet_checks :: bool

section \<open>The probes\<close>

subsection \<open>DNS health\<close>

text \<open>
  \<open>_check_dns_health\<close>. Every query sits in its own \<open>try\<close> with a bare \<open>except\<close>, so the
  two outer handlers of the source are never reached and the response-time points are
  always counted.
\<close>

record dns_result =
  domain_exists :: bool
  mx_present :: bool
  spf_exists :: bool
  dkim_exists :: bool
  dmarc_exists :: bool
  dns_response_time_ms :: real
  dns_points :: int
  mx_hosts :: "string list"

definition common_selectors :: "string list" where
  "common_selectors = [''default'', ''google'', ''selector1'', ''selector2'', ''k1'', ''mail'']"

fun txt_starts :: "string \<Rightarrow> string list dns_reply \<Rightarrow> bool" where
  "txt_starts p (Answer records) = list_ex (\<lambda>t. startswith t p) records"
| "txt_starts p r = False"

definition check_dns_health :: "string \<Rightarrow> dns_world \<Rightarrow> dns_result" where
  "check_dns_health domain d =
     (let exists1 = answered (a_lookup d);
          r0 = \<lparr> domain_exists = exists1, mx_present = False, spf_exists = False,
                 dkim_exists = False, dmarc_exists = False, dns_response_time_ms = 0,
                 dns_points = 0, mx_hosts = [] \<rparr>;
          r1 = (case mx_lookup d of
                  Answer mx_records \<Rightarrow>
                    r0\<lparr>mx_hosts := map rstrip_dot mx_records, mx_present := True, dns_points := 20\<rparr>
                | NoAnswer \<Rightarrow>
                    (if answered (a_fallback d)
                     then r0\<lparr>domain_exists := True, mx_hosts := [domain]\<rparr>
                     else r0)
                | NXDOMAIN \<Rightarrow> r0
                | DNS_failure \<Rightarrow> r0);
          r2 = (if txt_starts ''v=spf1'' (txt_lookup d)
                then r1\<lparr>spf_exists := True, dns_points := dns_points r1 + 5\<rparr> else r1);
          r3 = (if txt_starts ''v=DMARC1'' (dmarc_lookup d)
                then r2\<lparr>dmarc_exists := True, dns_points := dns_points r2 + 5\<rparr> else r2);
          r4 = (if list_ex (\<lambda>selector. answered (dkim_lookup d selector)) common_selectors
                then r3\<lparr>dkim_exists := True, dns_points := dns_points r3 + 5\<rparr> else r3);
          r5 = r4\<lparr>dns_response_time_ms := round2 (dns_time d)\<rparr>
      in if dns_time d < 300 then r5\<lparr>dns_points := dns_points r5 + 3\<rparr>
         else if 800 < dns_time d then r5\<lparr>dns_points := dns_points r5 - 3\<rparr>
         else r5)"

subsection \<open>Domain age\<close>

text \<open>
  The probes from here on that only add points to the score are modelled by the
  \<open>points\<close> field of the dictionary they return. A result served from one of the caches
  is a result the same function computed earlier, from an earlier answer of the network.
\<close>

fun check_domain_age :: "whois_obs \<Rightarrow> int" where
  "check_domain_age Whois_skipped = 0"
| "check_domain_age Whois_no_date = 0"
| "check_domain_age (Whois_age age_months) =
     (if age_months < 1 then - 15 else if age_months < 12 then 0 else 10)"

subsection \<open>SMTP connection\<close>

record greeting_result =
  greeting_valid :: bool
  greeting_points :: int
  greeting_code :: "int option"
  greeting_message :: string

record smtp_connection =
  port_25_open :: bool
  tls_successful :: bool
  greeting :: "greeting_result option"
  conn_points :: int
  mx_used :: "string option"
  conn_skipped :: bool

definition smtp_blocked_domains :: "string list" where
  "smtp_blocked_domains =
     [''outlook.com'', ''hotmail.com'', ''live.com'', ''msn.com'',
      ''gmail.com'', ''googlemail.com'', ''yahoo.com'', ''yahoo.co.uk'',
      ''aol.com'', ''icloud.com'', ''me.com'', ''mac.com'',
      ''microsoft.com'', ''office365.com'']"

definition transactional_patterns :: "string list" where
  "transactional_patterns =
     [''inbound-smtp'', ''amazonaws.com'', ''sendgrid.net'',
      ''mailgun.org'', ''mailgun.com'', ''sparkpostmail.com'',
      ''postmarkapp.com'', ''mandrillapp.com'']"

fun read_greeting :: "greeting_obs \<Rightarrow> greeting_result" where
  "read_greeting (Banner greeting_response) =
     (if startswith greeting_response ''220''
      then \<lparr> greeting_valid = True, greeting_points = 10, greeting_code = Some 220,
             greeting_message = greeting_response \<rparr>
      else \<lparr> greeting_valid = False, greeting_points = - 10, greeting_code = None,
             greeting_message = [] \<rparr>)"
| "read_greeting Banner_error =
     \<lparr> greeting_valid = False, greeting_points = - 10, greeting_code = None,
       greeting_message = [] \<rparr>"

text \<open>The loop over \<open>mx_hosts[:2]\<close>; \<open>continue\<close> is the recursive call, \<open>break\<close> returns.\<close>

fun connect_loop :: "bool \<Rightarrow> (string \<times> port_obs) list \<Rightarrow> smtp_connection \<Rightarrow> smtp_connection" where
  "connect_loop fast_mode [] result = result"
| "connect_loop fast_mode ((mx_host, ob) # rest) result =
     (case ob of
        Port_error \<Rightarrow> connect_loop fast_mode rest result
      | Port_closed \<Rightarrow> connect_loop fast_mode rest result
      | Port_open_init_failed \<Rightarrow>
          connect_loop fast_mode rest
            (result\<lparr>port_25_open := True, conn_points := conn_points result + 10,
                    mx_used := Some mx_host\<rparr>)
      | Port_open g session \<Rightarrow>
          (let r1 = result\<lparr>port_25_open := True, conn_points := conn_points result + 10,
                           mx_used := Some mx_host, greeting := Some (read_greeting g)\<rparr>
           in case session of
                Connect_failed \<Rightarrow> connect_loop fast_mode rest r1
              | Session tls quit_fine \<Rightarrow>
                  (let r2 = (if \<not> fast_mode \<and> tls
                             then r1\<lparr>tls_successful := True, conn_points := conn_points r1 + 5\<rparr>
                             else r1)
                   in if quit_fine then r2 else connect_loop fast_mode rest r2)))"

definition check_smtp_connection ::
  "string \<Rightarrow> string list \<Rightarrow> bool \<Rightarrow> (nat \<Rightarrow> port_obs) \<Rightarrow> smtp_connection" where
  "check_smtp_connection domain hosts fast_mode obs =
     (let result = \<lparr> port_25_open = False, tls_successful = False, greeting = None,
                      conn_points = 0, mx_used = None, conn_skipped = False \<rparr>;
          domain_lower = lower domain
      in if hosts = [] then result
         else if list_ex (\<lambda>blocked. contains domain_lower blocked
                                     \<or> endswith domain_lower (''.'' @ blocked))
                   smtp_blocked_domains
         then result\<lparr>conn_skipped := True\<rparr>
         else if list_ex (\<lambda>mx_host. list_ex (\<lambda>pattern. contains (lower mx_host) pattern)
                                       transactional_patterns)
                   (take 2 hosts)
         then result\<lparr>conn_skipped := True\<rparr>
         else connect_loop fast_mode (zip (take 2 hosts) [obs 0, obs 1]) result)"

subsection \<open>SMTP RCPT\<close>

record timing =
  response_time_sec :: real
  timing_points :: int

record smtp_rcpt =
  accepted :: bool
  rejected :: bool
  hard_failure :: bool
  soft_failure :: bool
  catch_all_detected :: bool
  timing :: timing
  rcpt_points :: int
  rcpt_error :: "string option"
  response_code :: "int option"
  rcpt_skipped :: bool

fun exc_error :: "smtp_exc \<Rightarrow> string" where
  "exc_error SMTPServerDisconnected = ''Server disconnected''"
| "exc_error Socket_timeout = ''Connection timeout''"
| "exc_error (Other_exception text) = ''SMTP error: '' @ text"

definition rcpt_default :: smtp_rcpt where
  "rcpt_default =
     \<lparr> accepted = False, rejected = False, hard_failure = False, soft_failure = False,
       catch_all_detected = False,
       timing = \<lparr> response_time_sec = 0, timing_points = 0 \<rparr>,
       rcpt_points = 0, rcpt_error = None, response_code = None, rcpt_skipped = False \<rparr>"

text \<open>The classification of the reply to RCPT TO, in the order of the source's \<open>elif\<close> chain.\<close>

definition classify_reply :: "int \<Rightarrow> string \<Rightarrow> smtp_rcpt \<Rightarrow> smtp_rcpt" where
  "classify_reply code message_text result =
     (if code = 250 \<or> code = 251
      then result\<lparr>accepted := True, rcpt_points := rcpt_points result + 10\<rparr>
      else if code = 550
      then (let msg_lower = lower message_text
            in if contains msg_lower ''user unknown'' \<or> contains msg_lower ''5.1.1''
               then result\<lparr>rejected := True, hard_failure := True, rcpt_points := 0,
                           rcpt_error := Some ''User unknown''\<rparr>
               else result\<lparr>rejected := True, rcpt_points := 0\<rparr>)
      else if code = 450 \<or> code = 451
      then result\<lparr>soft_failure := True, rcpt_points := rcpt_points result + 10,
                  rcpt_error := Some ''Temporarily unavailable (greylisted)''\<rparr>
      else if code = 421
      then result\<lparr>soft_failure := True, rcpt_points := rcpt_points result + 10,
                  rcpt_error := Some ''Service unavailable, try again later''\<rparr>
      else if 500 \<le> code \<and> code < 600
      then result\<lparr>rejected := True, hard_failure := True, rcpt_points := 0,
                  rcpt_error := Some (''Permanent SMTP error: '' @ str_int code)\<rparr>
      else result\<lparr>rcpt_error := Some (''Unexpected response: '' @ str_int code)\<rparr>)"

definition timing_score :: "real \<Rightarrow> int" where
  "timing_score response_time =
     (if response_time < 1 then - 10 else if 15 < response_time then - 5 else 5)"

definition check_smtp_rcpt ::
  "string \<Rightarrow> string \<Rightarrow> string list \<Rightarrow> smtp_connection \<Rightarrow> bool \<Rightarrow> rcpt_dialogue \<Rightarrow> smtp_rcpt" where
  "check_smtp_rcpt email domain hosts smtp_conn fast_mode dialogue =
     (let result = rcpt_default
      in if conn_skipped smtp_conn \<or> \<not> port_25_open smtp_conn
         then result\<lparr>rcpt_skipped := True\<rparr>
         else
           (let first_host = (case hosts of [] \<Rightarrow> None | h # _ \<Rightarrow> Some h);
                mx_host = (case mx_used smtp_conn of
                             None \<Rightarrow> first_host
                           | Some h \<Rightarrow> if h \<noteq> [] then Some h else first_host)
            in if \<not> truthy mx_host then result
               else
                 (case dialogue of
                    Smtp_init_failed text \<Rightarrow>
                      result\<lparr>rcpt_error := Some (''Connection error: '' @ text)\<rparr>
                  | Failed_before_rcpt e \<Rightarrow> result\<lparr>rcpt_error := Some (exc_error e)\<rparr>
                  | Mail_from_refused \<Rightarrow> result
                  | Rcpt_reply code message_text response_time quit_exc \<Rightarrow>
                      (let r1 = result\<lparr>timing := (timing result)\<lparr>response_time_sec :=
                                                      round2 response_time\<rparr>,
                                        response_code := Some code\<rparr>
                       in case quit_exc of
                            Some e \<Rightarrow> r1\<lparr>rcpt_error := Some (exc_error e)\<rparr>
                          | None \<Rightarrow>
                              (let r2 = classify_reply code message_text r1
                               in r2\<lparr>timing := (timing r2)\<lparr>timing_points :=
                                                    timing_score response_time\<rparr>\<rparr>)))))"

subsection \<open>Security reputation and web presence\<close>

record deliverability =
  spf :: bool
  dkim :: bool
  dmarc :: bool
  spf_record :: "string option"
  dmarc_record :: "string option"

text \<open>\<open>_check_deliverability\<close>: the loops over the TXT records do not stop at the first
  hit, so the last matching record is the one kept.\<close>

fun last_starting :: "string \<Rightarrow> string list dns_reply \<Rightarrow> string option" where
  "last_starting p (Answer records) =
     (case filter (\<lambda>t. startswith t p) records of [] \<Rightarrow> None | x # xs \<Rightarrow> Some (last (x # xs)))"
| "last_starting p r = None"

definition check_deliverability ::
  "string list dns_reply \<Rightarrow> string list dns_reply \<Rightarrow> (string \<Rightarrow> unit dns_reply) \<Rightarrow> deliverability" where
  "check_deliverability txt dmarc_txt dkim_q =
     \<lparr> spf = (last_starting ''v=spf1'' txt \<noteq> None),
       dkim = list_ex (\<lambda>selector. answered (dkim_q selector)) common_selectors,
       dmarc = (last_starting ''v=DMARC1'' dmarc_txt \<noteq> None),
       spf_record = last_starting ''v=spf1'' txt,
       dmarc_record = last_starting ''v=DMARC1'' dmarc_txt \<rparr>"

definition check_security_reputation :: "deliverability \<Rightarrow> int" where
  "check_security_reputation dl =
     (let p1 = (case spf_record dl of
                  Some rec \<Rightarrow>
                    (if spf dl \<and> 10 < length rec
                        \<and> (contains rec ''include:'' \<or> contains rec ''ip4:'' \<or> contains rec ''ip6:'')
                     then 3 else 0)
                | None \<Rightarrow> 0);
          p2 = (if dkim dl \<and> dmarc dl then 5 else 0)
      in p1 + p2)"

text \<open>\<open>_check_web_presence\<close>: HTTPS first, then HTTP; \<open>None\<close> is a request that raised.\<close>

definition site_points :: "int \<Rightarrow> int" where
  "site_points status_code = (if status_code = 200 then 10 else 5)"

definition check_web_presence :: "int option \<Rightarrow> int option \<Rightarrow> int" where
  "check_web_presence https http =
     (case https of
        Some status_code \<Rightarrow> site_points status_code
      | None \<Rightarrow> (case http of Some status_code \<Rightarrow> site_points status_code | None \<Rightarrow> - 10))"

subsection \<open>Provider fingerprint, error patterns, provider rules\<close>

definition count_true :: "bool list \<Rightarrow> nat" where
  "count_true bs = length (filter (\<lambda>b. b) bs)"

definition check_provider_fingerprint ::
  "string list \<Rightarrow> smtp_connection \<Rightarrow> mpf_obs \<Rightarrow> int" where
  "check_provider_fingerprint hosts smtp_conn ob =
     (if hosts = [] \<or> conn_skipped smtp_conn then 0
      else case ob of
             Mpf_init_failed \<Rightarrow> 0
           | Mpf_session_failed \<Rightarrow> 0
           | Mpf_caps pipelining eightbitmime size_ext starttls noop_ok \<Rightarrow>
               (let capability_count = count_true [pipelining, eightbitmime, size_ext, starttls];
                    p = (if 3 \<le> capability_count then 10
                         else if 2 \<le> capability_count then 5
                         else if 1 \<le> capability_count then 2 else 0)
                in if noop_ok then p else max 0 (p - 3)))"

text \<open>
  \<open>_classify_smtp_error_pattern\<close>. No code path stores an \<open>error\<close> key in the result of
  \<open>_check_smtp_connection\<close>, so \<open>smtp_connection.get("error", "")\<close> is the empty string.
\<close>

definition classify_smtp_error_pattern :: "smtp_rcpt \<Rightarrow> smtp_connection \<Rightarrow> int" where
  "classify_smtp_error_pattern r smtp_conn =
     (let error = (if truthy (rcpt_error r) then the (rcpt_error r) else []);
          error_lower = lower error
      in if contains error_lower ''rate limit'' \<or> contains error_lower ''too many''
            \<or> contains error_lower ''429'' then 5
         else if contains error_lower ''greylist'' \<or> contains error_lower ''451''
            \<or> contains error_lower ''temporarily'' then 10
         else if contains error_lower ''policy'' \<or> contains error_lower ''privacy''
            \<or> contains error_lower ''not allowed'' then 3
         else if contains error_lower ''connection refused'' \<or> contains error_lower ''refused''
         then 3
         else if contains error_lower ''timeout'' \<or> contains error_lower ''dead''
            \<or> contains error_lower ''no route'' then - 20
         else if contains error_lower ''reset'' then 0
         else 0)"

record provider_rule =
  max_score_without_rcpt :: "int option"
  always_blocks :: bool
  may_accept_all :: bool
  reliable_rejections :: bool
  accept_all :: bool

definition blocks :: "int \<Rightarrow> provider_rule" where
  "blocks m = \<lparr> max_score_without_rcpt = Some m, always_blocks = True, may_accept_all = False,
                reliable_rejections = False, accept_all = False \<rparr>"

definition provider_rules :: "(string \<times> provider_rule) list" where
  "provider_rules =
     [(''gmail.com'', blocks 55),
      (''googlemail.com'', blocks 55),
      (''outlook.com'', (blocks 60)\<lparr>may_accept_all := True\<rparr>),
      (''hotmail.com'', blocks 60),
      (''live.com'', blocks 60),
      (''yahoo.com'', blocks 55),
      (''yahoo.co.uk'', blocks 55),
      (''zoho.com'', (blocks 75)\<lparr>always_blocks := False, reliable_rejections := True\<rparr>),
      (''protonmail.com'', (blocks 50)\<lparr>accept_all := True\<rparr>),
      (''icloud.com'', blocks 50),
      (''me.com'', blocks 50),
      (''mac.com'', blocks 50)]"

record plbr_result =
  provider :: "string option"
  rule_applied :: bool
  score_adjusted :: bool
  adjusted_score :: int

text \<open>\<open>_apply_provider_rules\<close>: the first rule, in the order of the table, whose provider
  name occurs in the domain; the loop stops there.\<close>

definition apply_provider_rules :: "string \<Rightarrow> smtp_rcpt \<Rightarrow> int \<Rightarrow> plbr_result" where
  "apply_provider_rules domain r current_score =
     (let result = \<lparr> provider = None, rule_applied = False, score_adjusted = False,
                      adjusted_score = current_score \<rparr>;
          domain_lower = lower domain
      in case find (\<lambda>(prov, rules). contains domain_lower prov
                                      \<or> endswith domain_lower (''.'' @ prov)) provider_rules of
           None \<Rightarrow> result
         | Some (prov, rules) \<Rightarrow>
             (let r1 = result\<lparr>provider := Some prov, rule_applied := True\<rparr>;
                  max_score = (case max_score_without_rcpt rules of None \<Rightarrow> 100 | Some m \<Rightarrow> m)
              in if \<not> accepted r \<and> max_score < current_score
                 then r1\<lparr>score_adjusted := True, adjusted_score := max_score\<rparr>
                 else r1))"

subsection \<open>Probes of the MX host\<close>

text \<open>\<open>_smtp_retry_simulation\<close>: two attempts; the orchestrator reads
  \<open>success_after_retry\<close> only.\<close>

fun attempt_accepted :: "attempt_obs \<Rightarrow> bool" where
  "attempt_accepted (Attempt_code code) = (code = 250 \<or> code = 251)"
| "attempt_accepted a = False"

definition smtp_retry_simulation :: "string list \<Rightarrow> (nat \<Rightarrow> attempt_obs) \<Rightarrow> bool" where
  "smtp_retry_simulation hosts ob =
     (hosts \<noteq> [] \<and> (attempt_accepted (ob 0) \<or> attempt_accepted (ob 1)))"

text \<open>\<open>_check_tls_certificate\<close>; a missing \<open>commonName\<close> of the subject reads as the empty
  string in the domain match and as \<open>None\<close> in the comparison with the issuer.\<close>

definition check_tls_certificate :: "string \<Rightarrow> tls_obs \<Rightarrow> int" where
  "check_tls_certificate mx_host ob =
     (case ob of
        Tls_skipped \<Rightarrow> 0
      | Tls_ssl_error \<Rightarrow> 0
      | Tls_no_cert \<Rightarrow> 0
      | Tls_cert cert \<Rightarrow>
          (let common_name = (case subject_cn cert of None \<Rightarrow> [] | Some n \<Rightarrow> n);
               p1 = (if contains common_name mx_host \<or> contains mx_host common_name then 5 else 0);
               p2 = (if issuer_cn cert \<noteq> subject_cn cert then 5 else - 10);
               p3 = (if cert_expired cert then - 10 else 0)
           in p1 + p2 + p3))"

text \<open>\<open>_check_mail_ports\<close>: ports 25, 465, 587 and 2525, two points for each open one.\<close>

definition check_mail_ports :: "(nat \<Rightarrow> bool) \<Rightarrow> int" where
  "check_mail_ports open_port = 2 * int (count_true (map open_port [25, 465, 587, 2525]))"

definition check_dnssec :: "unit dns_reply \<Rightarrow> int" where
  "check_dnssec r = (if answered r then 5 else 0)"

fun check_ptr_record :: "string \<Rightarrow> ptr_obs \<Rightarrow> int" where
  "check_ptr_record mx_host Ptr_skipped = 0"
| "check_ptr_record mx_host Ptr_herror = - 5"
| "check_ptr_record mx_host (Ptr_name ptr_record) =
     (if contains ptr_record mx_host \<or> contains mx_host ptr_record then 5 else - 5)"

fun check_ip_reputation :: "ip_obs \<Rightarrow> int" where
  "check_ip_reputation Ip_unresolved = 0"
| "check_ip_reputation Ip_listed = - 10"
| "check_ip_reputation Ip_not_listed = 10"

text \<open>\<open>_analyze_server_behavior\<close>.\<close>

definition greeting_is_valid :: "smtp_connection \<Rightarrow> bool" where
  "greeting_is_valid smtp_conn =
     (case greeting smtp_conn of None \<Rightarrow> False | Some g \<Rightarrow> greeting_valid g)"

definition analyze_server_behavior :: "smtp_connection \<Rightarrow> smtp_rcpt \<Rightarrow> int" where
  "analyze_server_behavior smtp_conn r =
     (let p1 = (if greeting_is_valid smtp_conn then 3 else 0);
          p2 = (if tls_successful smtp_conn then 5 else 0);
          response_time = response_time_sec (timing r);
          p3 = (if 0 < response_time \<and> response_time < 1 then 2
                else if 5 < response_time then - 2 else 0)
      in max (- 5) (min 15 (p1 + p2 + p3)))"

definition popular_mx_patterns :: "string list" where
  "popular_mx_patterns =
     [''privateemail.com'', ''zoho.com'', ''hostinger.com'', ''google.com'', ''outlook.com'',
      ''yahoo.com'', ''amazonaws.com'', ''sendgrid.net'', ''mailgun.org'']"

definition check_mx_popularity :: "string \<Rightarrow> int" where
  "check_mx_popularity mx_host =
     (if list_ex (\<lambda>pattern. contains (lower mx_host) pattern) popular_mx_patterns then 10 else 0)"

text \<open>
  \<open>_analyze_blocklist_behavior\<close>. \<open>smtp_rcpt.get("error", "")\<close> is \<open>None\<close> when the key
  holds \<open>None\<close>, and \<open>None.lower()\<close> raises \<open>AttributeError\<close>; nothing catches it.
\<close>

datatype py_error = AttributeError | ValueError

definition str_code :: "int option \<Rightarrow> string" where
  "str_code c = (case c of None \<Rightarrow> ''None'' | Some code \<Rightarrow> str_int code)"

definition analyze_blocklist_behavior :: "smtp_rcpt \<Rightarrow> smtp_connection \<Rightarrow> py_error + int" where
  "analyze_blocklist_behavior r smtp_conn =
     (if rejected r
      then (case rcpt_error r of
              None \<Rightarrow> Inl AttributeError
            | Some e \<Rightarrow>
                (let error = lower e
                 in if contains error ''user unknown'' \<or> contains (str_code (response_code r)) ''550''
                    then Inr 5 else Inr 0))
      else if accepted r then Inr 0
      else if soft_failure r then Inr 3
      else Inr 0)"

fun check_mx_consistency :: "mxc_obs \<Rightarrow> int" where
  "check_mx_consistency Mxc_skipped = 0"
| "check_mx_consistency Mxc_broken = - 10"
| "check_mx_consistency Mxc_perfect = 10"

fun check_tls_policy_strength :: "tls_policy_obs \<Rightarrow> int" where
  "check_tls_policy_strength Policy_skipped = 0"
| "check_tls_policy_strength Policy_ssl_error = - 5"
| "check_tls_policy_strength (Policy_cipher has_cipher) = (if has_cipher then 10 else - 5)"

definition check_mx_redundancy :: "string list \<Rightarrow> int" where
  "check_mx_redundancy hosts =
     (let mx_count = length hosts
      in if mx_count = 0 then - 20
         else if mx_count = 1 then - 3
         else if 2 \<le> mx_count \<and> mx_count \<le> 4 then 5
         else 3)"

text \<open>
  \<open>_check_smtp_strictness\<close>. The first two checks read the error through \<open>str(...)\<close> and
  cannot raise; the anti-spam check calls \<open>.lower()\<close> on the error itself and raises
  \<open>AttributeError\<close> when it is \<open>None\<close>.
\<close>

definition str_error :: "string option \<Rightarrow> string" where
  "str_error e = (case e of None \<Rightarrow> ''None'' | Some text \<Rightarrow> text)"

definition check_smtp_strictness :: "smtp_connection \<Rightarrow> smtp_rcpt \<Rightarrow> py_error + int" where
  "check_smtp_strictness smtp_conn r =
     (let p1 = (if greeting_is_valid smtp_conn then 2 else 0);
          p2 = (case response_code r of
                  None \<Rightarrow> 0
                | Some code \<Rightarrow>
                    (if code \<noteq> 0 \<and> code \<noteq> 250 \<and> code \<noteq> 251
                        \<and> contains (lower (str_error (rcpt_error r))) ''mail''
                     then 3 else 0));
          p3 = (if rejected r \<and> response_code r \<in> {Some 500, Some 501, Some 502} then 3 else 0)
      in case rcpt_error r of
           None \<Rightarrow> Inl AttributeError
         | Some e \<Rightarrow>
             (let error = lower e;
                  p4 = (if contains error ''spam'' \<or> contains error ''policy''
                           \<or> contains error ''block'' then 2 else 0);
                  p = (p1 + p2 + p3 + p4 :: int)
              in if 8 \<le> p then Inr 10 else if 4 \<le> p then Inr 0 else Inr (- 5)))"

definition check_mailfrom_health ::
  "string list \<Rightarrow> smtp_connection \<Rightarrow> mailfrom_obs \<Rightarrow> int" where
  "check_mailfrom_health hosts smtp_conn ob =
     (if hosts = [] \<or> conn_skipped smtp_conn then 0
      else case ob of
             Mailfrom_init_failed \<Rightarrow> 0
           | Mailfrom_session_failed \<Rightarrow> 0
           | Mailfrom_code code \<Rightarrow> (if code \<noteq> 250 \<and> code \<noteq> 251 then 7 else - 7))"

text \<open>\<open>_analyze_connection_latency\<close> reads the rounded time stored by the RCPT probe.\<close>

record latency_result =
  latency_points :: int
  latency_pattern :: string

definition analyze_connection_latency :: "smtp_connection \<Rightarrow> smtp_rcpt \<Rightarrow> latency_result" where
  "analyze_connection_latency smtp_conn r =
     (let rcpt_time = response_time_sec (timing r)
      in if rcpt_time < 1 / 2
         then \<lparr> latency_points = - 10, latency_pattern = ''instant_reject'' \<rparr>
         else if 1 / 2 \<le> rcpt_time \<and> rcpt_time \<le> 3
         then \<lparr> latency_points = 8, latency_pattern = ''normal'' \<rparr>
         else if 3 < rcpt_time \<and> rcpt_time \<le> 10
         then \<lparr> latency_points = 0, latency_pattern = ''slow'' \<rparr>
         else \<lparr> latency_points = - 5, latency_pattern = ''very_slow'' \<rparr>)"

text \<open>
  \<open>_check_loadbalancer_behavior\<close>: the responses recorded for the first two hosts, a
  code or an error each; a host whose \<open>quit()\<close> raises after the reply leaves both, and
  one whose \<open>SMTP\<close> object cannot be built leaves none. The codes compared are the
  non-zero ones.
\<close>

fun lb_responses :: "lb_obs \<Rightarrow> int option list" where
  "lb_responses (Lb_code code) = [Some code]"
| "lb_responses (Lb_code_quit_failed code) = [Some code, None]"
| "lb_responses Lb_error = [None]"
| "lb_responses Lb_init_failed = []"

fun truthy_code :: "int option \<Rightarrow> int list" where
  "truthy_code None = []"
| "truthy_code (Some code) = (if code \<noteq> 0 then [code] else [])"

definition check_loadbalancer_behavior :: "string list \<Rightarrow> (nat \<Rightarrow> lb_obs) \<Rightarrow> int" where
  "check_loadbalancer_behavior hosts ob =
     (if length hosts < 2 then 0
      else (let responses = lb_responses (ob 0) @ lb_responses (ob 1);
                codes = concat (map truthy_code responses)
            in if 2 \<le> length responses
               then (if card (set codes) = 1 then 5 else - 10)
               else 0))"

definition check_vrfy_lite_behavior :: "string list \<Rightarrow> smtp_connection \<Rightarrow> vrfy_obs \<Rightarrow> int" where
  "check_vrfy_lite_behavior hosts smtp_conn ob =
     (if hosts = [] \<or> conn_skipped smtp_conn then 0
      else case ob of
             Vrfy_skipped \<Rightarrow> 0
           | Vrfy_codes code1 code2 \<Rightarrow> (if code1 \<noteq> code2 then 6 else - 6))"

definition role_accounts :: "string list" where
  "role_accounts = [''postmaster'', ''abuse'', ''support'', ''info'']"

definition check_role_accounts :: "string list \<Rightarrow> (string \<Rightarrow> attempt_obs) \<Rightarrow> int" where
  "check_role_accounts hosts ob =
     (if hosts = [] then 0
      else (let valid_count = length (filter (\<lambda>role. attempt_accepted (ob role)) role_accounts)
            in if valid_count = length role_accounts then 6
               else if valid_count = 0 then - 6 else 0))"

definition trusted_brands :: "string list" where
  "trusted_brands =
     [''google.com'', ''outlook.com'', ''secureserver.net'', ''privateemail.com'',
      ''mailsrvr.com'', ''amazonaws.com'', ''sendgrid.net'', ''mailgun.org'', ''mailgun.com'',
      ''zoho.com'', ''yahoo.com'', ''aol.com'']"

definition check_mx_brand :: "string \<Rightarrow> int" where
  "check_mx_brand mx_host =
     (if list_ex (\<lambda>brand_pattern. contains (lower mx_host) brand_pattern) trusted_brands
      then 10 else 0)"

text \<open>\<open>_check_greylist_depth\<close>: up to three attempts; the loop stops at the first accepted
  one, or when the \<open>SMTP\<close> object cannot be built; acceptance on the second or third
  attempt scores.\<close>

fun greylist_loop :: "nat \<Rightarrow> attempt_obs list \<Rightarrow> int" where
  "greylist_loop attempt [] = 0"
| "greylist_loop attempt (Attempt_init_failed # rest) = 0"
| "greylist_loop attempt (Attempt_error # rest) = greylist_loop (Suc attempt) rest"
| "greylist_loop attempt (Attempt_code code # rest) =
     (if code = 250 \<or> code = 251 then (if 1 \<le> attempt then 10 else 0)
      else greylist_loop (Suc attempt) rest)"

definition check_greylist_depth :: "string list \<Rightarrow> (nat \<Rightarrow> attempt_obs) \<Rightarrow> int" where
  "check_greylist_depth hosts ob =
     (if hosts = [] then 0 else greylist_loop 0 [ob 0, ob 1, ob 2])"

definition professional_patterns :: "string list" where
  "professional_patterns =
     [''esmtp'', ''postfix'', ''sendmail'', ''exim'', ''microsoft'', ''exchange'',
      ''mailjet'', ''sendgrid'', ''mailgun'', ''amazon'', ''google'']"

definition suspicious_patterns :: "string list" where
  "suspicious_patterns = [''test'', ''fake'', ''honeypot'', ''spam'']"

definition analyze_smtp_banner :: "string \<Rightarrow> int" where
  "analyze_smtp_banner banner_message =
     (let banner_lower = lower banner_message
      in if list_ex (\<lambda>pattern. contains banner_lower pattern) professional_patterns then 8
         else if list_ex (\<lambda>pattern. contains banner_lower pattern) suspicious_patterns then - 8
         else if length (strip banner_message) < 10 then - 8
         else 0)"

text \<open>\<open>_check_domain_blacklists\<close>: an answer means listed; only \<open>NXDOMAIN\<close> means not
  listed; any other exception leaves the probe skipped with no points.\<close>

definition check_domain_blacklists :: "unit dns_reply \<Rightarrow> unit dns_reply \<Rightarrow> int" where
  "check_domain_blacklists dbl_reply surbl_reply =
     (case dbl_reply of
        Answer _ \<Rightarrow> - 10
      | NXDOMAIN \<Rightarrow>
          (case surbl_reply of
             Answer _ \<Rightarrow> - 10
           | NXDOMAIN \<Rightarrow> 10
           | NoAnswer \<Rightarrow> 0
           | DNS_failure \<Rightarrow> 0)
      | NoAnswer \<Rightarrow> 0
      | DNS_failure \<Rightarrow> 0)"

fun check_quit_behavior :: "quit_obs \<Rightarrow> int" where
  "check_quit_behavior Quit_skipped = 0"
| "check_quit_behavior Quit_raised = - 4"
| "check_quit_behavior (Quit_code code) = (if code = 221 then 4 else - 4)"

text \<open>\<open>_check_tcp_stability\<close>: three connection attempts; \<open>total_attempts // 2\<close> is 1.\<close>

definition check_tcp_stability :: "(nat \<Rightarrow> bool) \<Rightarrow> int" where
  "check_tcp_stability connects =
     (let stable_connections = count_true [connects 0, connects 1, connects 2]
      in if stable_connections = 3 then 5
         else if 1 \<le> stable_connections then 0
         else - 5)"

text \<open>\<open>_detect_catch_all\<close> runs the connection and RCPT probes again, in fast mode, for a
  random local part of fifteen characters.\<close>

definition detect_catch_all ::
  "string \<Rightarrow> string list \<Rightarrow> string \<Rightarrow> (nat \<Rightarrow> port_obs) \<Rightarrow> rcpt_dialogue \<Rightarrow> bool" where
  "detect_catch_all domain hosts random_local conn_ob dialogue =
     (let test_email = random_local @ ''@'' @ domain;
          smtp_conn = check_smtp_connection domain hosts True conn_ob
      in if conn_skipped smtp_conn \<or> \<not> port_25_open smtp_conn then False
         else accepted (check_smtp_rcpt test_email domain hosts smtp_conn True dialogue))"

section \<open>The orchestrator\<close>

text \<open>
  \<open>verify_email\<close> keeps a running \<open>score\<close> and the dictionary \<open>score_details\<close>. The model
  keeps both in an accumulator: the score, and for every entry stored in
  \<open>score_details\<close> its key and the amount that step added to the score, in the order
  of the stores. The payload of each entry is left out.
\<close>

record acc =
  sc :: int
  det :: "(string \<times> int) list"

definition add :: "string \<Rightarrow> int \<Rightarrow> acc \<Rightarrow> acc" where
  "add name p a = \<lparr> sc = sc a + p, det = det a @ [(name, p)] \<rparr>"

definition add_when :: "bool \<Rightarrow> string \<Rightarrow> int \<Rightarrow> acc \<Rightarrow> acc" where
  "add_when c name p a = (if c then add name p a else a)"

record verification =
  res_email :: string
  status :: string
  score :: int
  confidence :: real
  reason :: string
  details :: "(string \<times> int) list"
  risky :: bool

text \<open>The module-level table \<open>DOMAIN_CONFIDENCE_OVERRIDES\<close>; the source ships it empty.\<close>

record override =
  min_score :: "int option"
  force_status :: "string option"

definition DOMAIN_CONFIDENCE_OVERRIDES :: "string \<rightharpoonup> override" where
  "DOMAIN_CONFIDENCE_OVERRIDES = Map.empty"

text \<open>The status and the reason for a clamped score.\<close>

definition bucket :: "int \<Rightarrow> string \<times> string" where
  "bucket s =
     (if 90 \<le> s then (''valid'', ''Very likely valid'')
      else if 70 \<le> s then (''likely_valid'', ''Probably valid but unconfirmed'')
      else if 50 \<le> s then (''uncertain'', ''Uncertain (common when SMTP blocks verification)'')
      else if 20 \<le> s then (''likely_invalid'', ''Likely invalid'')
      else (''invalid'', ''Definitely invalid''))"

text \<open>Lines 364 to 399 of \<open>verify_email\<close>: clamp, status, overrides.\<close>

definition finish :: "string \<Rightarrow> string \<Rightarrow> acc \<Rightarrow> bool \<Rightarrow> verification" where
  "finish addr domain a is_risky =
     (let clamped = max 0 (min 100 (sc a));
          result = \<lparr> res_email = addr, status = fst (bucket clamped), score = clamped,
                     confidence = real_of_int clamped / 100, reason = snd (bucket clamped),
                     details = det a, risky = is_risky \<rparr>
      in case DOMAIN_CONFIDENCE_OVERRIDES domain of
           None \<Rightarrow> result
         | Some ov \<Rightarrow>
             (let r1 = (case min_score ov of
                          None \<Rightarrow> result
                        | Some m \<Rightarrow> result\<lparr>score := max (score result) m,
                                           confidence := real_of_int (max (score result) m) / 100\<rparr>)
              in case force_status ov of
                   None \<Rightarrow> r1
                 | Some forced \<Rightarrow> r1\<lparr>status := forced\<rparr>))"

text \<open>
  Lines 147 to 362 of \<open>verify_email\<close>: the probes that run once the domain exists. The
  result is the accumulator and the \<open>risky\<close> flag, or the exception that leaves
  \<open>verify_email\<close>: the two probes that can raise are not inside any \<open>try\<close>.
\<close>

definition run_probes ::
  "string \<Rightarrow> string \<Rightarrow> bool \<Rightarrow> bool \<Rightarrow> world \<Rightarrow> string list \<Rightarrow> acc \<Rightarrow> py_error + (acc \<times> bool)" where
  "run_probes addr domain fast_mode internet_checks w hosts a0 =
     (let a = add ''domain_age'' (check_domain_age (whois w)) a0;
          smtp_conn = check_smtp_connection domain hosts fast_mode (conn w);
          a = add ''smtp_connection'' (conn_points smtp_conn) a;
          a = add ''smtp_greeting''
                (case greeting smtp_conn of None \<Rightarrow> 0 | Some g \<Rightarrow> greeting_points g) a;
          smtp_rcpt = check_smtp_rcpt addr domain hosts smtp_conn fast_mode (rcpt w);
          a = add ''smtp_rcpt'' (rcpt_points smtp_rcpt) a;
          a = a\<lparr>sc := (if hard_failure smtp_rcpt then min (sc a) 10 else sc a)\<rparr>;
          a = add ''smtp_timing'' (timing_points (timing smtp_rcpt)) a;
          a = add ''security_reputation''
                (check_security_reputation
                   (check_deliverability (deliv_txt w) (deliv_dmarc w) (deliv_dkim w))) a;
          a = add ''web_presence'' (check_web_presence (web_https w) (web_http w)) a;
          a = add_when (\<not> fast_mode) ''provider_fingerprint''
                (check_provider_fingerprint hosts smtp_conn (mpf w)) a;
          a = add ''error_pattern'' (classify_smtp_error_pattern smtp_rcpt smtp_conn) a;
          plbr_result = apply_provider_rules domain smtp_rcpt (sc a);
          capped = (if score_adjusted plbr_result then adjusted_score plbr_result else sc a);
          a = \<lparr> sc = capped, det = det a @ [(''provider_rules'', capped - sc a)] \<rparr>;
          a = add_when (\<not> fast_mode \<and> soft_failure smtp_rcpt) ''smtp_retry''
                (if smtp_retry_simulation hosts (retry w) then 20 else 0) a;
          has_mx_used = truthy (mx_used smtp_conn);
          a = add_when has_mx_used ''tls_certificate''
                (check_tls_certificate (the (mx_used smtp_conn)) (tls_cert w)) a;
          a = add_when (\<not> fast_mode \<and> hosts \<noteq> []) ''mail_ports'' (check_mail_ports (ports w)) a;
          a = add ''dnssec'' (check_dnssec (dnskey w)) a;
          a = add_when (hosts \<noteq> []) ''ptr_record'' (check_ptr_record (hd hosts) (ptr w)) a;
          a = add_when (hosts \<noteq> []) ''ip_reputation'' (check_ip_reputation (ip_rep w)) a;
          a = add_when has_mx_used ''server_behavior''
                (analyze_server_behavior smtp_conn smtp_rcpt) a;
          a = add_when (hosts \<noteq> []) ''mx_popularity'' (check_mx_popularity (hd hosts)) a
      in case analyze_blocklist_behavior smtp_rcpt smtp_conn of
           Inl e \<Rightarrow> Inl e
         | Inr blocklist_points \<Rightarrow>
             (let a = add ''blocklist_behavior'' blocklist_points a;
                  a = add_when (hosts \<noteq> []) ''mx_consistency'' (check_mx_consistency (mxc w)) a;
                  a = add_when (has_mx_used \<and> \<not> fast_mode) ''tls_policy''
                        (check_tls_policy_strength (tls_policy w)) a;
                  a = add ''mx_redundancy'' (check_mx_redundancy hosts) a
              in case (if has_mx_used \<and> \<not> fast_mode
                       then check_smtp_strictness smtp_conn smtp_rcpt else Inr 0) of
                   Inl e \<Rightarrow> Inl e
                 | Inr strictness_points \<Rightarrow>
                     (let a = add_when (has_mx_used \<and> \<not> fast_mode) ''smtp_strictness''
                                strictness_points a;
                          a = add_when (has_mx_used \<and> \<not> fast_mode) ''mailfrom_health''
                                (check_mailfrom_health hosts smtp_conn (mailfrom w)) a;
                          a = add_when (has_mx_used \<and> \<not> fast_mode) ''latency_fingerprint''
                                (latency_points (analyze_connection_latency smtp_conn smtp_rcpt)) a;
                          a = add_when (1 < length hosts \<and> \<not> fast_mode) ''loadbalancer''
                                (check_loadbalancer_behavior hosts (loadbalancer w)) a;
                          a = add_when (has_mx_used \<and> \<not> fast_mode) ''vrfy_lite''
                                (check_vrfy_lite_behavior hosts smtp_conn (vrfy w)) a;
                          a = add_when (\<not> fast_mode) ''role_accounts''
                                (check_role_accounts hosts (roles w)) a;
                          a = add_when (hosts \<noteq> []) ''mx_brand'' (check_mx_brand (hd hosts)) a;
                          a = add_when (soft_failure smtp_rcpt \<and> \<not> fast_mode) ''greylist_depth''
                                (check_greylist_depth hosts (greylist w)) a;
                          banner = (case greeting smtp_conn of
                                      None \<Rightarrow> [] | Some g \<Rightarrow> greeting_message g);
                          a = add_when (banner \<noteq> []) ''smtp_banner'' (analyze_smtp_banner banner) a;
                          a = add ''domain_blacklists''
                                (check_domain_blacklists (dbl w) (surbl w)) a;
                          a = add_when (has_mx_used \<and> \<not> fast_mode) ''quit_behavior''
                                (check_quit_behavior (quit w)) a;
                          a = add_when (has_mx_used \<and> \<not> fast_mode) ''tcp_stability''
                                (check_tcp_stability (tcp w)) a;
                          is_catchall = (\<not> fast_mode \<and>
                             detect_catch_all domain hosts (random_string w)
                               (catchall_conn w) (catchall_rcpt w));
                          a = add ''catch_all'' (if is_catchall then 10 else 0) a;
                          a = add_when (internet_checks \<or> enable_internet_checks w)
                                ''internet_check'' 0 a
                      in Inr (a, is_catchall))))"

text \<open>
  \<open>verify_email(email, fast_mode, confidence_mode, internet_checks)\<close>; the parameter
  \<open>confidence_mode\<close> is never read and is left out. The result is the dictionary
  returned, or the exception raised.
\<close>

definition verify_email :: "string \<Rightarrow> bool \<Rightarrow> bool \<Rightarrow> world \<Rightarrow> py_error + verification" where
  "verify_email addr fast_mode internet_checks w =
     (let syntax_result = check_syntax addr;
          a = add ''syntax'' (syntax_points syntax_result) \<lparr> sc = 0, det = [] \<rparr>
      in if \<not> syntax_valid syntax_result
         then Inr \<lparr> res_email = addr, status = ''invalid'', score = 0, confidence = 0,
                    reason = ''Invalid email syntax'', details = det a, risky = False \<rparr>
         else case split_at (lower addr) of
                None \<Rightarrow> Inl ValueError
              | Some (local_part, domain) \<Rightarrow>
                  (let dns_res = check_dns_health domain (dns w);
                       a = add ''dns_health'' (dns_points dns_res) a
                   in if \<not> domain_exists dns_res
                      then Inr \<lparr> res_email = addr, status = ''invalid'', score = sc a,
                                 confidence = real_of_int (sc a) / 100,
                                 reason = ''Domain does not exist'', details = det a,
                                 risky = False \<rparr>
                      else case run_probes addr domain fast_mode internet_checks w
                                  (mx_hosts dns_res) a of
                             Inl e \<Rightarrow> Inl e
                           | Inr (a', is_risky) \<Rightarrow> Inr (finish addr domain a' is_risky)))"

section \<open>Predicates on the RCPT dialogue\<close>


text \<open>The dialogue never reached the line that measures the latency of RCPT TO.\<close>

fun never_measured :: "rcpt_dialogue \<Rightarrow> bool" where
  "never_measured (Smtp_init_failed text) = True"
| "never_measured (Failed_before_rcpt e) = True"
| "never_measured Mail_from_refused = True"
| "never_measured (Rcpt_reply code message_text response_time quit_exc) = False"

section \<open>Concrete networks\<close>

text \<open>A network on which nothing answers: every DNS name is unknown, every port closed.\<close>

definition quiet_dns :: dns_world where
  "quiet_dns =
     \<lparr> a_lookup = NXDOMAIN, mx_lookup = NXDOMAIN, a_fallback = NXDOMAIN,
       txt_lookup = NXDOMAIN, dmarc_lookup = NXDOMAIN, dkim_lookup = (\<lambda>selector. NXDOMAIN),
       dns_time = 120 \<rparr>"

definition quiet_world :: world where
  "quiet_world =
     \<lparr> dns = quiet_dns, whois = Whois_skipped, conn = (\<lambda>i. Port_closed),
       rcpt = Failed_before_rcpt Socket_timeout,
       deliv_txt = NXDOMAIN, deliv_dmarc = NXDOMAIN, deliv_dkim = (\<lambda>selector. NXDOMAIN),
       web_https = None, web_http = None, mpf = Mpf_session_failed,
       retry = (\<lambda>i. Attempt_error), tls_cert = Tls_ssl_error, ports = (\<lambda>p. False),
       dnskey = NoAnswer, ptr = Ptr_skipped, ip_rep = Ip_unresolved, mxc = Mxc_skipped,
       tls_policy = Policy_ssl_error, mailfrom = Mailfrom_session_failed,
       loadbalancer = (\<lambda>i. Lb_error), vrfy = Vrfy_skipped, roles = (\<lambda>role. Attempt_error),
       greylist = (\<lambda>i. Attempt_error), dbl = DNS_failure, surbl = DNS_failure,
       quit = Quit_skipped, tcp = (\<lambda>i. False), random_string = ''k3j9x0q2m7z1p5w'',
       catchall_conn = (\<lambda>i. Port_closed), catchall_rcpt = Failed_before_rcpt Socket_timeout,
       enable_internet_checks = False \<rparr>"

text \<open>
  A well-kept mail domain, \<open>example.org\<close>: A record, two MX hosts, SPF, DMARC and a DKIM
  key under the selector \<open>default\<close>, a web site, clean on the blocklists. Its mail server
  answers RCPT TO for an unknown mailbox with \<open>550 5.1.1 ... User unknown\<close> after two
  seconds.
\<close>

definition healthy_dns :: dns_world where
  "healthy_dns =
     \<lparr> a_lookup = Answer (),
       mx_lookup = Answer [''mx1.example.org.'', ''mx2.example.org.''],
       a_fallback = Answer (),
       txt_lookup = Answer [''google-site-verification=abc'',
                            ''v=spf1 include:_spf.example.org ~all''],
       dmarc_lookup = Answer [''v=DMARC1; p=none''],
       dkim_lookup = (\<lambda>selector. if selector = ''default'' then Answer () else NXDOMAIN),
       dns_time = 120 \<rparr>"

definition unknown_user_world :: world where
  "unknown_user_world =
     quiet_world
       \<lparr> dns := healthy_dns, whois := Whois_age 60,
         conn := (\<lambda>i. Port_open (Banner ''220 mx1.example.org ESMTP Postfix'')
                          (Session True True)),
         rcpt := Rcpt_reply 550
                   (str_bytes ''5.1.1 <nobody@example.org>: Recipient address rejected: User unknown in local recipient table'')
                   2 None,
         deliv_txt := Answer [''v=spf1 include:_spf.example.org ~all''],
         deliv_dmarc := Answer [''v=DMARC1; p=none''],
         deliv_dkim := (\<lambda>selector. if selector = ''default'' then Answer () else NXDOMAIN),
         web_https := Some 200, ports := (\<lambda>p. p = 25), dnskey := Answer (),
         ptr := Ptr_name ''mx1.example.org'', ip_rep := Ip_not_listed, mxc := Mxc_perfect,
         dbl := NXDOMAIN, surbl := NXDOMAIN, tcp := (\<lambda>i. True) \<rparr>"

text \<open>The same domain, whose server refuses the probe with a policy reply instead:
  \<open>550 5.7.1\<close>, not a statement about the mailbox.\<close>

definition policy_reply :: rcpt_dialogue where
  "policy_reply =
     Rcpt_reply 550 (str_bytes ''5.7.1 Service unavailable; client host blocked by policy'') 2 None"

definition policy_block_world :: world where
  "policy_block_world = unknown_user_world\<lparr>rcpt := policy_reply\<rparr>"

text \<open>The same domain, whose server stops answering during the RCPT dialogue.\<close>

definition timeout_world :: world where
  "timeout_world = unknown_user_world\<lparr>rcpt := Failed_before_rcpt Socket_timeout\<rparr>"

text \<open>
  \<open>gmail.com\<close> as the verifier sees it: five MX hosts under \<open>google.com\<close>, SPF by
  redirect, DMARC, no DKIM key under the common selectors, a web site, and a PTR record
  that does not name the MX host. The domain is on the list of blocked providers, so no
  SMTP session is attempted.
\<close>

definition gmail_dns :: dns_world where
  "gmail_dns =
     \<lparr> a_lookup = Answer (),
       mx_lookup = Answer [''gmail-smtp-in.l.google.com.'', ''alt1.gmail-smtp-in.l.google.com.'',
                           ''alt2.gmail-smtp-in.l.google.com.'', ''alt3.gmail-smtp-in.l.google.com.'',
                           ''alt4.gmail-smtp-in.l.google.com.''],
       a_fallback = Answer (),
       txt_lookup = Answer [''v=spf1 redirect=_spf.google.com''],
       dmarc_lookup = Answer [''v=DMARC1; p=none; sp=quarantine''],
       dkim_lookup = (\<lambda>selector. NXDOMAIN),
       dns_time = 80 \<rparr>"

definition gmail_world :: world where
  "gmail_world =
     quiet_world
       \<lparr> dns := gmail_dns, whois := Whois_age 350,
         deliv_txt := Answer [''v=spf1 redirect=_spf.google.com''],
         deliv_dmarc := Answer [''v=DMARC1; p=none; sp=quarantine''],
         web_https := Some 200, ptr := Ptr_name ''ea-in-f27.1e100.net'',
         ip_rep := Ip_not_listed, mxc := Mxc_broken, dbl := NXDOMAIN, surbl := NXDOMAIN \<rparr>"

text \<open>A domain with TXT records only: no A record, no MX record, but SPF, DMARC and a
  DKIM key.\<close>

definition txt_only_dns :: dns_world where
  "txt_only_dns =
     \<lparr> a_lookup = NoAnswer, mx_lookup = NoAnswer, a_fallback = NoAnswer,
       txt_lookup = Answer [''v=spf1 -all''],
       dmarc_lookup = Answer [''v=DMARC1; p=reject''],
       dkim_lookup = (\<lambda>selector. if selector = ''default'' then Answer () else NXDOMAIN),
       dns_time = 120 \<rparr>"

definition txt_only_world :: world where
  "txt_only_world = quiet_world\<lparr>dns := txt_only_dns\<rparr>"

text \<open>A mail-only domain: MX records, no A record.\<close>

definition mx_only_dns :: dns_world where
  "mx_only_dns =
     \<lparr> a_lookup = NoAnswer, mx_lookup = Answer [''mail.example.net.''], a_fallback = NoAnswer,
       txt_lookup = NoAnswer, dmarc_lookup = NXDOMAIN, dkim_lookup = (\<lambda>selector. NXDOMAIN),
       dns_time = 120 \<rparr>"

definition mx_only_world :: world where
  "mx_only_world = quiet_world\<lparr>dns := mx_only_dns\<rparr>"

text \<open>A domain with an A record and no MX record.\<close>

definition a_only_dns :: dns_world where
  "a_only_dns =
     \<lparr> a_lookup = Answer (), mx_lookup = NoAnswer, a_fallback = Answer (),
       txt_lookup = NoAnswer, dmarc_lookup = NXDOMAIN, dkim_lookup = (\<lambda>selector. NXDOMAIN),
       dns_time = 120 \<rparr>"

text \<open>The connection result for a host whose port 25 is open and greets with 220.\<close>

definition open_connection :: smtp_connection where
  "open_connection =
     \<lparr> port_25_open = True, tls_successful = False,
       greeting = Some \<lparr> greeting_valid = True, greeting_points = 10, greeting_code = Some 220,
                         greeting_message = ''220 mx1.example.org ESMTP Postfix'' \<rparr>,
       conn_points = 10, mx_used = Some ''mx1.example.org'', conn_skipped = False \<rparr>"

text \<open>What the verifier returns for \<open>nobody@example.org\<close>, in fast mode, when the server
  says the user is unknown.\<close>

definition unknown_user_result :: verification where
  "unknown_user_result =
     \<lparr> res_email = ''nobody@example.org'', status = ''valid'', score = 94,
       confidence = 94 / 100, reason = ''Very likely valid'',
       details = [(''syntax'', 10), (''dns_health'', 38), (''domain_age'', 10),
                  (''smtp_connection'', 10), (''smtp_greeting'', 10), (''smtp_rcpt'', 0),
                  (''smtp_timing'', 5), (''security_reputation'', 8), (''web_presence'', 10),
                  (''error_pattern'', 0), (''provider_rules'', 0), (''tls_certificate'', 0),
                  (''dnssec'', 5), (''ptr_record'', 5), (''ip_reputation'', 10),
                  (''server_behavior'', 3), (''mx_popularity'', 0), (''blocklist_behavior'', 5),
                  (''mx_consistency'', 10), (''mx_redundancy'', 5), (''mx_brand'', 0),
                  (''smtp_banner'', 8), (''domain_blacklists'', 10), (''catch_all'', 0)],
       risky = False \<rparr>"

text \<open>What the verifier returns for \<open>someone@gmail.com\<close> in fast mode.\<close>

definition gmail_result :: verification where
  "gmail_result =
     \<lparr> res_email = ''someone@gmail.com'', status = ''likely_valid'', score = 83,
       confidence = 83 / 100, reason = ''Probably valid but unconfirmed'',
       details = [(''syntax'', 10), (''dns_health'', 33), (''domain_age'', 10),
                  (''smtp_connection'', 0), (''smtp_greeting'', 0), (''smtp_rcpt'', 0),
                  (''smtp_timing'', 0), (''security_reputation'', 0), (''web_presence'', 10),
                  (''error_pattern'', 0), (''provider_rules'', - 8), (''dnssec'', 0),
                  (''ptr_record'', - 5), (''ip_reputation'', 10), (''mx_popularity'', 10),
                  (''blocklist_behavior'', 0), (''mx_consistency'', - 10),
                  (''mx_redundancy'', 3), (''mx_brand'', 10), (''domain_blacklists'', 10),
                  (''catch_all'', 0)],
       risky = False \<rparr>"

text \<open>What the verifier returns for \<open>nobody@example.org\<close>, not in fast mode, when the RCPT
  dialogue times out.\<close>

definition timeout_result :: verification where
  "timeout_result =
     \<lparr> res_email = ''nobody@example.org'', status = ''valid'', score = 100,
       confidence = 1, reason = ''Very likely valid'',
       details = [(''syntax'', 10), (''dns_health'', 38), (''domain_age'', 10),
                  (''smtp_connection'', 15), (''smtp_greeting'', 10), (''smtp_rcpt'', 0),
                  (''smtp_timing'', 0), (''security_reputation'', 8), (''web_presence'', 10),
                  (''provider_fingerprint'', 0), (''error_pattern'', - 20),
                  (''provider_rules'', 0), (''tls_certificate'', 0), (''mail_ports'', 2),
                  (''dnssec'', 5), (''ptr_record'', 5), (''ip_reputation'', 10),
                  (''server_behavior'', 8), (''mx_popularity'', 0), (''blocklist_behavior'', 0),
                  (''mx_consistency'', 10), (''tls_policy'', - 5), (''mx_redundancy'', 5),
                  (''smtp_strictness'', - 5), (''mailfrom_health'', 0),
                  (''latency_fingerprint'', - 10), (''loadbalancer'', - 10), (''vrfy_lite'', 0),
                  (''role_accounts'', - 6), (''mx_brand'', 0), (''smtp_banner'', 8),
                  (''domain_blacklists'', 10), (''quit_behavior'', 0), (''tcp_stability'', 5),
                  (''catch_all'', 0)],
       risky = False \<rparr>"

text \<open>The results of the two early returns on the networks above.\<close>

definition dns_rejection :: "string \<Rightarrow> int \<Rightarrow> verification" where
  "dns_rejection addr dns_pts =
     \<lparr> res_email = addr, status = ''invalid'', score = 10 + dns_pts,
       confidence = real_of_int (10 + dns_pts) / 100, reason = ''Domain does not exist'',
       details = [(''syntax'', 10), (''dns_health'', dns_pts)], risky = False \<rparr>"

definition syntax_rejection :: "string \<Rightarrow> verification" where
  "syntax_rejection addr =
     \<lparr> res_email = addr, status = ''invalid'', score = 0, confidence = 0,
       reason = ''Invalid email syntax'', details = [(''syntax'', 0)], risky = False \<rparr>"

section \<open>The shape of an address, in the words of the specification\<close>

text \<open>
  What a regular expression matches, as a set of strings; \<open>star L\<close> is the set of all
  concatenations of strings of \<open>L\<close>. It is the reference the derivative matcher is
  compared with.
\<close>

inductive_set star :: "string set \<Rightarrow> string set" for L :: "string set" where
  star_empty: "[] \<in> star L"
| star_more: "u \<in> L \<Longrightarrow> v \<in> star L \<Longrightarrow> u @ v \<in> star L"

primrec lang :: "rexp \<Rightarrow> string set" where
  "lang Zero = {}"
| "lang One = {[]}"
| "lang (Chars p) = {[c] | c. p c}"
| "lang (Alt r s) = lang r \<union> lang s"
| "lang (Seq r s) = {u @ v | u v. u \<in> lang r \<and> v \<in> lang s}"
| "lang (Star r) = star (lang r)"

text \<open>
  The specification's syntax gate: \<open>local @ label(.label)+\<close>, the local part made of
  \<open>[A-Za-z0-9._%+-]\<close>, the labels of \<open>[A-Za-z0-9.-]\<close>, the last label (the top-level
  domain) of at least two letters. As a label may itself hold dots, the labels before the
  last one are together any non-empty string of \<open>[A-Za-z0-9.-]\<close>. Nothing follows the
  top-level domain.
\<close>

definition address_shape :: "string \<Rightarrow> bool" where
  "address_shape s =
     (\<exists>local_part domain_part tld.
        s = local_part @ ''@'' @ domain_part @ ''.'' @ tld
        \<and> local_part \<noteq> [] \<and> list_all local_class local_part
        \<and> domain_part \<noteq> [] \<and> list_all domain_class domain_part
        \<and> 2 \<le> length tld \<and> list_all is_alpha tld)"

section \<open>Two more inputs\<close>

text \<open>An address followed by a newline, as a line read from a file and not stripped.\<close>

definition newline_address :: string where
  "newline_address = ''user@example.org'' @ [CHR 0x0A]"

text \<open>The domain \<open>example.org\<close> as before, whose server refuses MAIL FROM, so that the
  dialogue is ended by the probe before RCPT TO.\<close>

definition refused_world :: world where
  "refused_world = unknown_user_world\<lparr>rcpt := Mail_from_refused\<rparr>"

section \<open>Properties of the job registry\<close>

lemma length_last_ten: "length (last_ten xs) \<le> 10"
  by (simp add: last_ten_def)

lemma last_ten_snoc: "last_ten (last_ten xs @ [x]) = last_ten (xs @ [x])"
proof (cases "length xs \<le> 10")
  case True
  then show ?thesis by (simp add: last_ten_def)
next
  case False
  then have "length xs - (length xs - 10) = 10" by arith
  moreover from False have "Suc (length xs) - 10 = Suc (length xs - 10)" by arith
  ultimately show ?thesis by (simp add: last_ten_def)
qed

lemma last_ten_short: "length xs \<le> 10 \<Longrightarrow> last_ten xs = xs"
  by (simp add: last_ten_def)

lemma tracks_exec_op:
  assumes "tracks jobs lg"
  shows "tracks (exec_op x jobs) (log_op x lg)"
proof -
  have at: "case jobs k of
              None \<Rightarrow> lg k = None
            | Some j \<Rightarrow> (case lg k of None \<Rightarrow> False | Some h \<Rightarrow> errors j = last_ten h)" for k
    using assms by (simp add: tracks_def)
  have "case exec_op x jobs k of
          None \<Rightarrow> log_op x lg k = None
        | Some j \<Rightarrow> (case log_op x lg k of None \<Rightarrow> False | Some h \<Rightarrow> errors j = last_ten h)" for k
  proof (cases x)
    case (Create_job new_id now jtype nrows meta)
    then show ?thesis
      using at [of k] by (auto simp: create_job_def last_ten_def split: option.splits)
  next
    case (Start_job jid now)
    then show ?thesis
      using at [of k] at [of jid]
      by (auto simp: start_job_def split: option.splits)
  next
    case (Increment jid success msg err)
    then show ?thesis
      using at [of k] at [of jid]
      by (auto simp: increment_def Let_def last_ten_snoc split: option.splits)
  next
    case (Complete_job jid now path filename)
    then show ?thesis
      using at [of k] at [of jid]
      by (auto simp: complete_job_def split: option.splits)
  next
    case (Fail_job jid now err)
    then show ?thesis
      using at [of k] at [of jid]
      by (auto simp: fail_job_def last_ten_snoc split: option.splits)
  qed
  then show ?thesis by (simp add: tracks_def)
qed

lemma tracks_run_ops: "tracks jobs lg \<Longrightarrow> tracks (run_ops ops jobs) (run_log ops lg)"
  by (induction ops arbitrary: jobs lg) (auto intro: tracks_exec_op)

lemma tracks_empty: "tracks Map.empty Map.empty"
  by (simp add: tracks_def)

text \<open>
  Claim C9. Whatever sequence of \<open>create_job\<close>, \<open>start_job\<close>, \<open>increment\<close>,
  \<open>complete_job\<close> and \<open>fail_job\<close> calls has run on a fresh registry, every job in it
  holds at most ten error strings, and they are the last ten of all the error strings
  recorded for that job, in the order they were recorded.
\<close>

theorem errors_last_ten:
  assumes "run_ops ops Map.empty jid = Some j"
  shows "length (errors j) \<le> 10 \<and>
         (\<exists>h. run_log ops Map.empty jid = Some h \<and> errors j = last_ten h)"
proof -
  have "tracks (run_ops ops Map.empty) (run_log ops Map.empty)"
    by (rule tracks_run_ops [OF tracks_empty])
  then have "case run_ops ops Map.empty jid of
               None \<Rightarrow> run_log ops Map.empty jid = None
             | Some j \<Rightarrow> (case run_log ops Map.empty jid of None \<Rightarrow> False
                          | Some h \<Rightarrow> errors j = last_ten h)"
    unfolding tracks_def by blast
  with assms obtain h where h: "run_log ops Map.empty jid = Some h" "errors j = last_ten h"
    by (auto split: option.splits)
  then show ?thesis by (auto simp: length_last_ten)
qed

lemma demo_run: "\<exists>j. run_ops demo_ops Map.empty ''j1'' = Some j \<and> errors j = [''e02'', ''e03'', ''e04'', ''e05'', ''e06'', ''e07'', ''e08'', ''e09'', ''e10'', ''e11'']"
  by (simp add: demo_ops_def create_job_def start_job_def increment_def fail_job_def last_ten_def Let_def)

lemma demo_log: "run_log demo_ops Map.empty ''j1'' = Some [''e01'', ''e02'', ''e03'', ''e04'', ''e05'', ''e06'', ''e07'', ''e08'', ''e09'', ''e10'', ''e11'']"
  by (simp add: demo_ops_def)

theorem errors_last_ten_witness:
  "\<exists>j h. run_ops demo_ops Map.empty ''j1'' = Some j \<and>
         run_log demo_ops Map.empty ''j1'' = Some h \<and> length h = 11 \<and>
         length (errors j) \<le> 10 \<and> errors j = last_ten h \<and>
         errors j = [''e02'', ''e03'', ''e04'', ''e05'', ''e06'', ''e07'', ''e08'', ''e09'', ''e10'', ''e11'']"
proof -
  obtain j where j: "run_ops demo_ops Map.empty ''j1'' = Some j"
    "errors j = [''e02'', ''e03'', ''e04'', ''e05'', ''e06'', ''e07'', ''e08'', ''e09'', ''e10'', ''e11'']"
    using demo_run by blast
  from errors_last_ten [OF j(1)] demo_log j show ?thesis by auto
qed

section \<open>Evaluating the verifier on the concrete networks\<close>

lemmas syntax_defs = check_syntax_def re_match_to_end_def email_pattern_def Plus_def
  AtLeast2_def Chr_def local_class_def domain_class_def is_alpha_def is_digit_def

lemmas string_defs = lower_def lower_char_def startswith_def endswith_def rstrip_dot_def
  strip_def is_space_def str_int_def str_nat.simps digit_char_def split_at_def str_bytes_def

lemmas probe_defs = check_dns_health_def common_selectors_def round2_def round_half_even_def
  check_smtp_connection_def smtp_blocked_domains_def transactional_patterns_def
  check_smtp_rcpt_def rcpt_default_def classify_reply_def timing_score_def
  check_deliverability_def check_security_reputation_def check_web_presence_def site_points_def
  check_provider_fingerprint_def count_true_def classify_smtp_error_pattern_def
  apply_provider_rules_def provider_rules_def blocks_def smtp_retry_simulation_def
  check_tls_certificate_def check_mail_ports_def check_dnssec_def greeting_is_valid_def
  analyze_server_behavior_def popular_mx_patterns_def check_mx_popularity_def
  analyze_blocklist_behavior_def str_code_def check_mx_redundancy_def str_error_def
  check_smtp_strictness_def check_mailfrom_health_def analyze_connection_latency_def
  check_loadbalancer_behavior_def check_vrfy_lite_behavior_def role_accounts_def
  check_role_accounts_def trusted_brands_def check_mx_brand_def check_greylist_depth_def
  professional_patterns_def suspicious_patterns_def analyze_smtp_banner_def
  check_domain_blacklists_def check_tcp_stability_def detect_catch_all_def

lemmas world_defs = quiet_dns_def quiet_world_def healthy_dns_def unknown_user_world_def
  policy_reply_def policy_block_world_def timeout_world_def refused_world_def gmail_dns_def
  gmail_world_def
  txt_only_dns_def txt_only_world_def mx_only_dns_def mx_only_world_def a_only_dns_def
  open_connection_def

lemmas finish_defs = add_def finish_def bucket_def DOMAIN_CONFIDENCE_OVERRIDES_def

subsection \<open>Syntax gate and address splitting\<close>

lemma syntax_nobody:
  "check_syntax ''nobody@example.org'' =
     \<lparr> syntax_valid = True, syntax_points = 10, syntax_reason = ''Valid syntax'' \<rparr>"
  by (simp add: syntax_defs Let_def)

lemma syntax_gmail:
  "check_syntax ''someone@gmail.com'' =
     \<lparr> syntax_valid = True, syntax_points = 10, syntax_reason = ''Valid syntax'' \<rparr>"
  by (simp add: syntax_defs Let_def)

lemma syntax_info:
  "check_syntax ''info@example.net'' =
     \<lparr> syntax_valid = True, syntax_points = 10, syntax_reason = ''Valid syntax'' \<rparr>"
  by (simp add: syntax_defs Let_def)

lemma syntax_nxdomain:
  "check_syntax ''user@example-no-such-tld.invalid'' =
     \<lparr> syntax_valid = True, syntax_points = 10, syntax_reason = ''Valid syntax'' \<rparr>"
  by (simp add: syntax_defs Let_def)

lemma syntax_not_an_address:
  "check_syntax ''not-an-address'' =
     \<lparr> syntax_valid = False, syntax_points = 0, syntax_reason = ''Invalid syntax'' \<rparr>"
  by (simp add: syntax_defs Let_def)

text \<open>Python's \<open>$\<close> lets a newline at the end of the input pass the gate.\<close>

lemma syntax_trailing_newline:
  "syntax_valid (check_syntax (''nobody@example.org'' @ [CHR 0x0A]))"
  by (simp add: syntax_defs Let_def)

lemma syntax_newline:
  "check_syntax newline_address =
     \<lparr> syntax_valid = True, syntax_points = 10, syntax_reason = ''Valid syntax'' \<rparr>"
  by (simp add: newline_address_def syntax_defs Let_def)

lemma pattern_rejects_newline: "\<not> matches email_pattern newline_address"
  by (simp add: newline_address_def syntax_defs Let_def)

lemma split_newline:
  "split_at (lower newline_address) = Some (''user'', ''example.org'' @ [CHR 0x0A])"
  by (simp add: newline_address_def string_defs)

lemma split_nobody: "split_at (lower ''nobody@example.org'') = Some (''nobody'', ''example.org'')"
  by (simp add: string_defs)

lemma split_gmail: "split_at (lower ''someone@gmail.com'') = Some (''someone'', ''gmail.com'')"
  by (simp add: string_defs)

lemma split_info: "split_at (lower ''info@example.net'') = Some (''info'', ''example.net'')"
  by (simp add: string_defs)

lemma split_nxdomain:
  "split_at (lower ''user@example-no-such-tld.invalid'') =
     Some (''user'', ''example-no-such-tld.invalid'')"
  by (simp add: string_defs)

subsection \<open>DNS health\<close>

lemma dns_healthy:
  "check_dns_health ''example.org'' healthy_dns =
     \<lparr> domain_exists = True, mx_present = True, spf_exists = True, dkim_exists = True,
       dmarc_exists = True, dns_response_time_ms = 120, dns_points = 38,
       mx_hosts = [''mx1.example.org'', ''mx2.example.org''] \<rparr>"
  by (simp add: probe_defs string_defs world_defs Let_def cong: let_weak_cong)

lemma dns_gmail:
  "check_dns_health ''gmail.com'' gmail_dns =
     \<lparr> domain_exists = True, mx_present = True, spf_exists = True, dkim_exists = False,
       dmarc_exists = True, dns_response_time_ms = 80, dns_points = 33,
       mx_hosts = [''gmail-smtp-in.l.google.com'', ''alt1.gmail-smtp-in.l.google.com'',
                   ''alt2.gmail-smtp-in.l.google.com'', ''alt3.gmail-smtp-in.l.google.com'',
                   ''alt4.gmail-smtp-in.l.google.com''] \<rparr>"
  by (simp add: probe_defs string_defs world_defs Let_def cong: let_weak_cong)

lemma dns_txt_only:
  "check_dns_health ''example.net'' txt_only_dns =
     \<lparr> domain_exists = False, mx_present = False, spf_exists = True, dkim_exists = True,
       dmarc_exists = True, dns_response_time_ms = 120, dns_points = 18, mx_hosts = [] \<rparr>"
  by (simp add: probe_defs string_defs world_defs Let_def cong: let_weak_cong)

lemma dns_mx_only:
  "check_dns_health ''example.net'' mx_only_dns =
     \<lparr> domain_exists = False, mx_present = True, spf_exists = False, dkim_exists = False,
       dmarc_exists = False, dns_response_time_ms = 120, dns_points = 23,
       mx_hosts = [''mail.example.net''] \<rparr>"
  by (simp add: probe_defs string_defs world_defs Let_def cong: let_weak_cong)

lemma dns_a_only:
  "check_dns_health ''example.net'' a_only_dns =
     \<lparr> domain_exists = True, mx_present = False, spf_exists = False, dkim_exists = False,
       dmarc_exists = False, dns_response_time_ms = 120, dns_points = 3,
       mx_hosts = [''example.net''] \<rparr>"
  by (simp add: probe_defs string_defs world_defs Let_def cong: let_weak_cong)

lemma dns_quiet:
  "check_dns_health domain quiet_dns =
     \<lparr> domain_exists = False, mx_present = False, spf_exists = False, dkim_exists = False,
       dmarc_exists = False, dns_response_time_ms = 120, dns_points = 3, mx_hosts = [] \<rparr>"
  by (simp add: probe_defs string_defs world_defs Let_def cong: let_weak_cong)

lemma world_dns:
  "dns quiet_world = quiet_dns"
  "dns unknown_user_world = healthy_dns"
  "dns policy_block_world = healthy_dns"
  "dns timeout_world = healthy_dns"
  "dns refused_world = healthy_dns"
  "dns gmail_world = gmail_dns"
  "dns txt_only_world = txt_only_dns"
  "dns mx_only_world = mx_only_dns"
  by (simp_all add: quiet_world_def unknown_user_world_def policy_block_world_def
        timeout_world_def refused_world_def gmail_world_def txt_only_world_def
        mx_only_world_def)

subsection \<open>The connection and RCPT probes on \<open>example.org\<close>\<close>

lemma connection_unknown_user:
  "check_smtp_connection ''example.org'' [''mx1.example.org'', ''mx2.example.org''] True
     (conn unknown_user_world) = open_connection"
  by (simp add: probe_defs string_defs world_defs Let_def cong: let_weak_cong)

lemma rcpt_unknown_user:
  "check_smtp_rcpt ''nobody@example.org'' ''example.org'' [''mx1.example.org'', ''mx2.example.org'']
     open_connection True (rcpt unknown_user_world) =
     \<lparr> accepted = False, rejected = True, hard_failure = True, soft_failure = False,
       catch_all_detected = False,
       timing = \<lparr> response_time_sec = 2, timing_points = 5 \<rparr>, rcpt_points = 0,
       rcpt_error = Some ''User unknown'', response_code = Some 550, rcpt_skipped = False \<rparr>"
  by (simp add: probe_defs string_defs world_defs Let_def cong: let_weak_cong)

lemma rcpt_policy_reply:
  "check_smtp_rcpt ''nobody@example.org'' ''example.org'' [''mx1.example.org'', ''mx2.example.org'']
     open_connection True policy_reply =
     \<lparr> accepted = False, rejected = True, hard_failure = False, soft_failure = False,
       catch_all_detected = False,
       timing = \<lparr> response_time_sec = 2, timing_points = 5 \<rparr>, rcpt_points = 0,
       rcpt_error = None, response_code = Some 550, rcpt_skipped = False \<rparr>"
  by (simp add: probe_defs string_defs world_defs Let_def cong: let_weak_cong)

lemma connection_gmail:
  "check_smtp_connection ''gmail.com'' (mx_hosts (check_dns_health ''gmail.com'' gmail_dns)) True
     (conn gmail_world) =
     \<lparr> port_25_open = False, tls_successful = False, greeting = None, conn_points = 0,
       mx_used = None, conn_skipped = True \<rparr>"
  by (simp add: dns_gmail) (simp add: probe_defs string_defs Let_def cong: let_weak_cong)

subsection \<open>The probes after the DNS stage\<close>

lemma run_unknown_user:
  "run_probes ''nobody@example.org'' ''example.org'' True False unknown_user_world
     [''mx1.example.org'', ''mx2.example.org'']
     \<lparr> sc = 48, det = [(''syntax'', 10), (''dns_health'', 38)] \<rparr> =
   Inr (\<lparr> sc = 94,
           det = [(''syntax'', 10), (''dns_health'', 38), (''domain_age'', 10),
                  (''smtp_connection'', 10), (''smtp_greeting'', 10), (''smtp_rcpt'', 0),
                  (''smtp_timing'', 5), (''security_reputation'', 8), (''web_presence'', 10),
                  (''error_pattern'', 0), (''provider_rules'', 0), (''tls_certificate'', 0),
                  (''dnssec'', 5), (''ptr_record'', 5), (''ip_reputation'', 10),
                  (''server_behavior'', 3), (''mx_popularity'', 0), (''blocklist_behavior'', 5),
                  (''mx_consistency'', 10), (''mx_redundancy'', 5), (''mx_brand'', 0),
                  (''smtp_banner'', 8), (''domain_blacklists'', 10), (''catch_all'', 0)] \<rparr>,
        False)"
  by (simp add: probe_defs string_defs world_defs add_def add_when_def run_probes_def Let_def
           cong: let_weak_cong)

lemma run_gmail:
  "run_probes ''someone@gmail.com'' ''gmail.com'' True False gmail_world
     [''gmail-smtp-in.l.google.com'', ''alt1.gmail-smtp-in.l.google.com'',
      ''alt2.gmail-smtp-in.l.google.com'', ''alt3.gmail-smtp-in.l.google.com'',
      ''alt4.gmail-smtp-in.l.google.com'']
     \<lparr> sc = 43, det = [(''syntax'', 10), (''dns_health'', 33)] \<rparr> =
   Inr (\<lparr> sc = 83,
           det = [(''syntax'', 10), (''dns_health'', 33), (''domain_age'', 10),
                  (''smtp_connection'', 0), (''smtp_greeting'', 0), (''smtp_rcpt'', 0),
                  (''smtp_timing'', 0), (''security_reputation'', 0), (''web_presence'', 10),
                  (''error_pattern'', 0), (''provider_rules'', - 8), (''dnssec'', 0),
                  (''ptr_record'', - 5), (''ip_reputation'', 10), (''mx_popularity'', 10),
                  (''blocklist_behavior'', 0), (''mx_consistency'', - 10),
                  (''mx_redundancy'', 3), (''mx_brand'', 10), (''domain_blacklists'', 10),
                  (''catch_all'', 0)] \<rparr>,
        False)"
  by (simp add: probe_defs string_defs world_defs add_def add_when_def run_probes_def Let_def
           cong: let_weak_cong)

lemma run_policy_block:
  "run_probes ''nobody@example.org'' ''example.org'' True False policy_block_world
     [''mx1.example.org'', ''mx2.example.org'']
     \<lparr> sc = 48, det = [(''syntax'', 10), (''dns_health'', 38)] \<rparr> =
   Inl AttributeError"
  by (simp add: probe_defs string_defs world_defs add_def add_when_def run_probes_def Let_def
           cong: let_weak_cong)

lemma run_timeout:
  "run_probes ''nobody@example.org'' ''example.org'' False False timeout_world
     [''mx1.example.org'', ''mx2.example.org'']
     \<lparr> sc = 48, det = [(''syntax'', 10), (''dns_health'', 38)] \<rparr> =
   Inr (\<lparr> sc = 113,
           det = [(''syntax'', 10), (''dns_health'', 38), (''domain_age'', 10),
                  (''smtp_connection'', 15), (''smtp_greeting'', 10), (''smtp_rcpt'', 0),
                  (''smtp_timing'', 0), (''security_reputation'', 8), (''web_presence'', 10),
                  (''provider_fingerprint'', 0), (''error_pattern'', - 20),
                  (''provider_rules'', 0), (''tls_certificate'', 0), (''mail_ports'', 2),
                  (''dnssec'', 5), (''ptr_record'', 5), (''ip_reputation'', 10),
                  (''server_behavior'', 8), (''mx_popularity'', 0), (''blocklist_behavior'', 0),
                  (''mx_consistency'', 10), (''tls_policy'', - 5), (''mx_redundancy'', 5),
                  (''smtp_strictness'', - 5), (''mailfrom_health'', 0),
                  (''latency_fingerprint'', - 10), (''loadbalancer'', - 10), (''vrfy_lite'', 0),
                  (''role_accounts'', - 6), (''mx_brand'', 0), (''smtp_banner'', 8),
                  (''domain_blacklists'', 10), (''quit_behavior'', 0), (''tcp_stability'', 5),
                  (''catch_all'', 0)] \<rparr>,
        False)"
  by (simp add: probe_defs string_defs world_defs add_def add_when_def run_probes_def Let_def
           cong: let_weak_cong)

lemma run_refused:
  "run_probes ''nobody@example.org'' ''example.org'' False False refused_world
     [''mx1.example.org'', ''mx2.example.org'']
     \<lparr> sc = 48, det = [(''syntax'', 10), (''dns_health'', 38)] \<rparr> =
   Inl AttributeError"
  by (simp add: probe_defs string_defs world_defs add_def add_when_def run_probes_def Let_def
           cong: let_weak_cong)

lemma connection_refused:
  "check_smtp_connection ''example.org'' [''mx1.example.org'', ''mx2.example.org''] False
     (conn refused_world) =
     open_connection\<lparr>tls_successful := True, conn_points := 15\<rparr>"
  by (simp add: probe_defs string_defs world_defs Let_def cong: let_weak_cong)

lemma rcpt_refused:
  "check_smtp_rcpt ''nobody@example.org'' ''example.org'' [''mx1.example.org'', ''mx2.example.org'']
     (open_connection\<lparr>tls_successful := True, conn_points := 15\<rparr>) False
     (rcpt refused_world) = rcpt_default"
  by (simp add: refused_world_def unknown_user_world_def check_smtp_rcpt_def
        open_connection_def)

lemma connection_timeout:
  "check_smtp_connection ''example.org'' [''mx1.example.org'', ''mx2.example.org''] False
     (conn timeout_world) =
     open_connection\<lparr>tls_successful := True, conn_points := 15\<rparr>"
  by (simp add: probe_defs string_defs world_defs Let_def cong: let_weak_cong)

subsection \<open>Whole verifications\<close>

lemma verify_not_an_address:
  "verify_email ''not-an-address'' fast_mode internet_checks w =
     Inr (syntax_rejection ''not-an-address'')"
  by (simp add: verify_email_def syntax_not_an_address add_def syntax_rejection_def Let_def
           cong: let_weak_cong)

lemma verify_nxdomain:
  "verify_email ''user@example-no-such-tld.invalid'' True False quiet_world =
     Inr (dns_rejection ''user@example-no-such-tld.invalid'' 3)"
  by (simp add: verify_email_def syntax_nxdomain split_nxdomain world_dns dns_quiet add_def
        dns_rejection_def Let_def cong: let_weak_cong)

lemma verify_newline:
  "verify_email newline_address True False quiet_world = Inr (dns_rejection newline_address 3)"
  by (simp add: verify_email_def syntax_newline split_newline world_dns dns_quiet add_def
        dns_rejection_def Let_def cong: let_weak_cong)

lemma verify_refused:
  "verify_email ''nobody@example.org'' False False refused_world = Inl AttributeError"
  by (simp add: verify_email_def syntax_nobody split_nobody world_dns dns_healthy
        run_refused finish_defs Let_def cong: let_weak_cong)

lemma verify_txt_only:
  "verify_email ''info@example.net'' True False txt_only_world =
     Inr (dns_rejection ''info@example.net'' 18)"
  by (simp add: verify_email_def syntax_info split_info world_dns dns_txt_only add_def
        dns_rejection_def Let_def cong: let_weak_cong)

lemma verify_mx_only:
  "verify_email ''info@example.net'' True False mx_only_world =
     Inr (dns_rejection ''info@example.net'' 23)"
  by (simp add: verify_email_def syntax_info split_info world_dns dns_mx_only add_def
        dns_rejection_def Let_def cong: let_weak_cong)

lemma verify_unknown_user:
  "verify_email ''nobody@example.org'' True False unknown_user_world = Inr unknown_user_result"
  by (simp add: verify_email_def syntax_nobody split_nobody world_dns dns_healthy
        run_unknown_user finish_defs unknown_user_result_def Let_def cong: let_weak_cong)

lemma verify_gmail:
  "verify_email ''someone@gmail.com'' True False gmail_world = Inr gmail_result"
  by (simp add: verify_email_def syntax_gmail split_gmail world_dns dns_gmail
        run_gmail finish_defs gmail_result_def Let_def cong: let_weak_cong)

lemma verify_policy_block:
  "verify_email ''nobody@example.org'' True False policy_block_world = Inl AttributeError"
  by (simp add: verify_email_def syntax_nobody split_nobody world_dns dns_healthy
        run_policy_block finish_defs Let_def cong: let_weak_cong)

lemma verify_timeout:
  "verify_email ''nobody@example.org'' False False timeout_world = Inr timeout_result"
  by (simp add: verify_email_def syntax_nobody split_nobody world_dns dns_healthy
        run_timeout finish_defs timeout_result_def Let_def cong: let_weak_cong)

section \<open>General facts about the verifier\<close>

lemma dns_points_bounds:
  "- 3 \<le> dns_points (check_dns_health domain d) \<and> dns_points (check_dns_health domain d) \<le> 38"
  by (simp add: check_dns_health_def Let_def split: dns_reply.split)

lemma bucket_cases:
  "fst (bucket s) =
     (if 90 \<le> s then ''valid'' else if 70 \<le> s then ''likely_valid''
      else if 50 \<le> s then ''uncertain'' else if 20 \<le> s then ''likely_invalid''
      else ''invalid'')"
  by (simp add: bucket_def)

lemma finish_props:
  "score (finish addr domain a k) = max 0 (min 100 (sc a))"
  "status (finish addr domain a k) = fst (bucket (score (finish addr domain a k)))"
  "confidence (finish addr domain a k) = real_of_int (score (finish addr domain a k)) / 100"
  "reason (finish addr domain a k) = snd (bucket (score (finish addr domain a k)))"
  "details (finish addr domain a k) = det a"
  "risky (finish addr domain a k) = k"
  by (simp_all add: finish_def DOMAIN_CONFIDENCE_OVERRIDES_def Let_def)

text \<open>The three ways in which \<open>verify_email\<close> returns a result.\<close>

lemma verify_email_cases:
  assumes "verify_email addr fast_mode internet_checks w = Inr r"
  shows "(\<not> syntax_valid (check_syntax addr) \<and> r = syntax_rejection addr)
       \<or> (\<exists>lp domain. syntax_valid (check_syntax addr)
             \<and> split_at (lower addr) = Some (lp, domain)
             \<and> \<not> domain_exists (check_dns_health domain (dns w))
             \<and> r = dns_rejection addr (dns_points (check_dns_health domain (dns w))))
       \<or> (\<exists>lp domain a k. syntax_valid (check_syntax addr)
             \<and> split_at (lower addr) = Some (lp, domain)
             \<and> domain_exists (check_dns_health domain (dns w))
             \<and> run_probes addr domain fast_mode internet_checks w
                  (mx_hosts (check_dns_health domain (dns w)))
                  \<lparr> sc = 10 + dns_points (check_dns_health domain (dns w)),
                    det = [(''syntax'', 10),
                           (''dns_health'', dns_points (check_dns_health domain (dns w)))] \<rparr>
                = Inr (a, k)
             \<and> r = finish addr domain a k)"
proof (cases "syntax_valid (check_syntax addr)")
  case False
  with assms show ?thesis
    by (auto simp: verify_email_def add_def check_syntax_def syntax_rejection_def Let_def)
next
  case True
  then have pts: "syntax_points (check_syntax addr) = 10"
    by (simp add: check_syntax_def Let_def)
  show ?thesis
  proof (cases "split_at (lower addr)")
    case None
    with True assms show ?thesis by (simp add: verify_email_def Let_def)
  next
    case (Some p)
    obtain lp domain where p: "p = (lp, domain)" by (cases p)
    show ?thesis
    proof (cases "domain_exists (check_dns_health domain (dns w))")
      case False
      with True Some p pts assms show ?thesis
        by (auto simp: verify_email_def add_def dns_rejection_def Let_def)
    next
      case ex: True
      with True Some p pts assms show ?thesis
        by (auto simp: verify_email_def add_def Let_def split: sum.splits)
    qed
  qed
qed

lemma det_add [simp]: "det (add n p a) = det a @ [(n, p)]"
  by (simp add: add_def)

lemma sc_add [simp]: "sc (add n p a) = sc a + p"
  by (simp add: add_def)

lemma det_add_when [simp]: "det (add_when c n p a) = det a @ (if c then [(n, p)] else [])"
  by (simp add: add_when_def)

lemma sc_add_when [simp]: "sc (add_when c n p a) = sc a + (if c then p else 0)"
  by (simp add: add_when_def)

text \<open>Entries of the details are only ever appended.\<close>

lemma run_probes_det_extends:
  assumes "run_probes addr domain fast_mode internet_checks w hosts a0 = Inr (a, k)"
  shows "\<exists>more. det a = det a0 @ more"
  using assms
  by (auto simp add: run_probes_def Let_def split: sum.splits split del: if_split)

lemma run_probes_det_prefix:
  assumes "run_probes addr domain fast_mode internet_checks w hosts
             \<lparr> sc = s, det = x # xs \<rparr> = Inr (a, k)"
  shows "\<exists>rest. det a = x # rest"
  using run_probes_det_extends [OF assms] by auto

text \<open>The latency probe stores its entry whenever it runs and \<open>verify_email\<close> returns.\<close>

lemma run_probes_latency_entry:
  assumes "run_probes addr domain False internet_checks w hosts a0 = Inr (a, k)"
    and "truthy (mx_used (check_smtp_connection domain hosts False (conn w)))"
  shows "(''latency_fingerprint'',
          latency_points (analyze_connection_latency
            (check_smtp_connection domain hosts False (conn w))
            (check_smtp_rcpt addr domain hosts (check_smtp_connection domain hosts False (conn w))
               False (rcpt w)))) \<in> set (det a)"
  using assms
  by (auto simp add: run_probes_def Let_def split: sum.splits split del: if_split)

lemma unmeasured_time:
  "never_measured dialogue \<Longrightarrow>
   response_time_sec (timing (check_smtp_rcpt addr domain hosts c fast_mode dialogue)) = 0"
  by (cases dialogue) (simp_all add: check_smtp_rcpt_def rcpt_default_def Let_def)

subsection \<open>The RCPT probe, once it runs\<close>










subsection \<open>The derivative matcher and the shape of the specification\<close>

lemma nullable_lang: "nullable r \<longleftrightarrow> [] \<in> lang r"
  by (induction r) (auto intro: star_empty)

lemma star_cons:
  "c # w \<in> star L \<longleftrightarrow> (\<exists>u v. w = u @ v \<and> c # u \<in> L \<and> v \<in> star L)"
proof
  assume "c # w \<in> star L"
  then show "\<exists>u v. w = u @ v \<and> c # u \<in> L \<and> v \<in> star L"
  proof (induction "c # w" arbitrary: w rule: star.induct)
    case (star_more u v)
    show ?case
    proof (cases u)
      case Nil
      with star_more show ?thesis by simp
    next
      case (Cons d u')
      with star_more(1,2,4) show ?thesis by auto
    qed
  qed
next
  assume "\<exists>u v. w = u @ v \<and> c # u \<in> L \<and> v \<in> star L"
  then obtain u v where "w = u @ v" "c # u \<in> L" "v \<in> star L" by blast
  then show "c # w \<in> star L"
    using star_more [of "c # u" L v] by simp
qed

lemma deriv_lang: "w \<in> lang (deriv c r) \<longleftrightarrow> c # w \<in> lang r"
proof (induction r arbitrary: w)
  case (Seq r s)
  show ?case
  proof
    assume "w \<in> lang (deriv c (Seq r s))"
    with Seq show "c # w \<in> lang (Seq r s)"
      by (auto simp: nullable_lang split: if_splits) (metis append_Cons append_Nil)+
  next
    assume "c # w \<in> lang (Seq r s)"
    then obtain u v where uv: "c # w = u @ v" "u \<in> lang r" "v \<in> lang s" by auto
    show "w \<in> lang (deriv c (Seq r s))"
    proof (cases u)
      case Nil
      with uv Seq show ?thesis by (auto simp: nullable_lang)
    next
      case (Cons d u')
      with uv Seq show ?thesis by (auto simp: nullable_lang)
    qed
  qed
next
  case (Star r)
  then show ?case by (auto simp: star_cons)
qed auto

lemma matches_lang: "matches r w \<longleftrightarrow> w \<in> lang r"
  by (induction w arbitrary: r) (simp_all add: nullable_lang deriv_lang)

lemma star_chars: "w \<in> star {[c] | c. p c} \<longleftrightarrow> list_all p w"
proof
  assume "w \<in> star {[c] | c. p c}"
  then show "list_all p w" by (induction rule: star.induct) auto
next
  assume "list_all p w"
  then show "w \<in> star {[c] | c. p c}"
  proof (induction w)
    case Nil
    show ?case by (rule star_empty)
  next
    case (Cons c w)
    then have "[c] \<in> {[c] | c. p c}" "w \<in> star {[c] | c. p c}" by auto
    from star_more [OF this] show ?case by simp
  qed
qed

lemma lang_Seq_Chars:
  "w \<in> lang (Seq (Chars p) r) \<longleftrightarrow> (\<exists>c v. w = c # v \<and> p c \<and> v \<in> lang r)"
proof
  assume "w \<in> lang (Seq (Chars p) r)"
  then show "\<exists>c v. w = c # v \<and> p c \<and> v \<in> lang r" by auto
next
  assume "\<exists>c v. w = c # v \<and> p c \<and> v \<in> lang r"
  then obtain c v where "w = [c] @ v" "p c" "v \<in> lang r" by auto
  then show "w \<in> lang (Seq (Chars p) r)" by (simp del: append.simps) blast
qed

lemma lang_Star_Chars: "w \<in> lang (Star (Chars p)) \<longleftrightarrow> list_all p w"
  by (simp add: star_chars)

lemma lang_Plus_Chars: "w \<in> lang (Plus (Chars p)) \<longleftrightarrow> w \<noteq> [] \<and> list_all p w"
  unfolding Plus_def lang_Seq_Chars lang_Star_Chars by (cases w) auto

lemma lang_AtLeast2_Chars: "w \<in> lang (AtLeast2 (Chars p)) \<longleftrightarrow> 2 \<le> length w \<and> list_all p w"
proof (cases w)
  case Nil
  then show ?thesis unfolding AtLeast2_def lang_Seq_Chars by simp
next
  case (Cons c w')
  then show ?thesis unfolding AtLeast2_def lang_Seq_Chars lang_Star_Chars by (cases w') auto
qed

lemma lang_Seq: "w \<in> lang (Seq r s) \<longleftrightarrow> (\<exists>u v. w = u @ v \<and> u \<in> lang r \<and> v \<in> lang s)"
  by auto

lemma lang_Chr_Seq: "w \<in> lang (Seq (Chr c) r) \<longleftrightarrow> (\<exists>v. w = c # v \<and> v \<in> lang r)"
  unfolding Chr_def lang_Seq_Chars by auto

lemma matches_email_pattern: "matches email_pattern s \<longleftrightarrow> address_shape s"
proof -
  have "s \<in> lang email_pattern \<longleftrightarrow>
     (\<exists>l rest. s = l @ rest \<and> l \<noteq> [] \<and> list_all local_class l \<and>
        (\<exists>rest2. rest = CHR ''@'' # rest2 \<and>
           (\<exists>d rest3. rest2 = d @ rest3 \<and> d \<noteq> [] \<and> list_all domain_class d \<and>
              (\<exists>t. rest3 = CHR ''.'' # t \<and> 2 \<le> length t \<and> list_all is_alpha t))))"
    unfolding email_pattern_def
    by (simp only: lang_Seq [of _ "Plus (Chars local_class)"]
          lang_Seq [of _ "Plus (Chars domain_class)"] lang_Chr_Seq lang_Plus_Chars
          lang_AtLeast2_Chars conj_assoc)
  also have "\<dots> \<longleftrightarrow> address_shape s"
  proof
    assume "\<exists>l rest. s = l @ rest \<and> l \<noteq> [] \<and> list_all local_class l \<and>
        (\<exists>rest2. rest = CHR ''@'' # rest2 \<and>
           (\<exists>d rest3. rest2 = d @ rest3 \<and> d \<noteq> [] \<and> list_all domain_class d \<and>
              (\<exists>t. rest3 = CHR ''.'' # t \<and> 2 \<le> length t \<and> list_all is_alpha t)))"
    then obtain l d t where "s = l @ CHR ''@'' # d @ CHR ''.'' # t" "l \<noteq> []"
      "list_all local_class l" "d \<noteq> []" "list_all domain_class d" "2 \<le> length t"
      "list_all is_alpha t"
      by blast
    then show "address_shape s" unfolding address_shape_def by auto
  next
    assume "address_shape s"
    then obtain l d t where parts: "s = l @ (CHR ''@'' # (d @ (CHR ''.'' # t)))" "l \<noteq> []"
      "list_all local_class l" "d \<noteq> []" "list_all domain_class d" "2 \<le> length t"
      "list_all is_alpha t"
      unfolding address_shape_def by auto
    then show "\<exists>l rest. s = l @ rest \<and> l \<noteq> [] \<and> list_all local_class l \<and>
        (\<exists>rest2. rest = CHR ''@'' # rest2 \<and>
           (\<exists>d rest3. rest2 = d @ rest3 \<and> d \<noteq> [] \<and> list_all domain_class d \<and>
              (\<exists>t. rest3 = CHR ''.'' # t \<and> 2 \<le> length t \<and> list_all is_alpha t)))"
      by blast
  qed
  finally show ?thesis by (simp add: matches_lang)
qed

lemma shape_has_at: "address_shape s \<Longrightarrow> CHR ''@'' \<in> set s"
  by (auto simp: address_shape_def)

lemma lower_keeps_at: "CHR ''@'' \<in> set s \<Longrightarrow> CHR ''@'' \<in> set (lower s)"
proof -
  have "lower_char CHR ''@'' = CHR ''@''" by (simp add: lower_char_def)
  then show "CHR ''@'' \<in> set s \<Longrightarrow> CHR ''@'' \<in> set (lower s)"
    by (force simp: lower_def)
qed

lemma valid_syntax_splits:
  assumes "syntax_valid (check_syntax addr)"
  shows "\<exists>local_part domain. split_at (lower addr) = Some (local_part, domain)"
proof -
  from assms have "re_match_to_end email_pattern addr"
    by (simp add: check_syntax_def Let_def)
  then have "CHR ''@'' \<in> set addr"
  proof (simp add: re_match_to_end_def matches_email_pattern, elim disjE conjE)
    assume "address_shape addr"
    then show ?thesis by (rule shape_has_at)
  next
    assume "addr \<noteq> []" "address_shape (butlast addr)"
    then have "CHR ''@'' \<in> set (butlast addr)" by (simp add: shape_has_at)
    then show ?thesis by (rule in_set_butlastD)
  qed
  then have "CHR ''@'' \<in> set (lower addr)" by (rule lower_keeps_at)
  then show ?thesis by (simp add: split_at_def)
qed

section \<open>The claims about the verifier\<close>

subsection \<open>C1: the hard-failure cap\<close>

text \<open>
  Claim C1, that a hard failure of the RCPT probe bounds the final score by 10, fails on
  the code. For \<open>nobody@example.org\<close> the server answers \<open>550 5.1.1 User unknown\<close>, the
  RCPT probe reports \<open>hard_failure\<close>, the score is cut to 10 right after the probe, and
  the probes that follow add 84 points: the result is score 94, status \<open>valid\<close>.
\<close>

theorem hard_failure_score_94:
  "hard_failure
     (check_smtp_rcpt ''nobody@example.org'' ''example.org''
        (mx_hosts (check_dns_health ''example.org'' (dns unknown_user_world)))
        (check_smtp_connection ''example.org''
           (mx_hosts (check_dns_health ''example.org'' (dns unknown_user_world))) True
           (conn unknown_user_world))
        True (rcpt unknown_user_world))
   \<and> verify_email ''nobody@example.org'' True False unknown_user_world = Inr unknown_user_result
   \<and> score unknown_user_result = 94 \<and> status unknown_user_result = ''valid''"
  by (simp add: world_dns dns_healthy connection_unknown_user rcpt_unknown_user
        verify_unknown_user unknown_user_result_def)

subsection \<open>C2: the provider-rule cap\<close>

lemma rcpt_gmail:
  "check_smtp_rcpt ''someone@gmail.com'' ''gmail.com''
     (mx_hosts (check_dns_health ''gmail.com'' gmail_dns))
     (check_smtp_connection ''gmail.com'' (mx_hosts (check_dns_health ''gmail.com'' gmail_dns))
        True (conn gmail_world))
     True (rcpt gmail_world) = rcpt_default\<lparr>rcpt_skipped := True\<rparr>"
  by (simp add: connection_gmail) (simp add: check_smtp_rcpt_def)

lemma default_not_accepted: "\<not> accepted rcpt_default"
  by (simp add: rcpt_default_def)

lemma plbr_gmail:
  "apply_provider_rules ''gmail.com'' (rcpt_default\<lparr>rcpt_skipped := True\<rparr>) 63 =
     \<lparr> provider = Some ''gmail.com'', rule_applied = True, score_adjusted = True,
       adjusted_score = 55 \<rparr>"
  by (simp add: probe_defs string_defs Let_def cong: let_weak_cong)

text \<open>
  Claim C2, that the provider-rule cap is applied after every probe and bounds the final
  score, fails on the code. For \<open>someone@gmail.com\<close> the RCPT probe is skipped, so it
  does not report \<open>accepted\<close>; the rule for \<open>gmail.com\<close> cuts the score from 63 to
  \<open>max_score_without_rcpt = 55\<close> at step 12, and the probes that follow add 28 points: the
  result is score 83, status \<open>likely_valid\<close>.
\<close>

theorem provider_cap_score_83:
  "\<not> accepted
       (check_smtp_rcpt ''someone@gmail.com'' ''gmail.com''
          (mx_hosts (check_dns_health ''gmail.com'' gmail_dns))
          (check_smtp_connection ''gmail.com''
             (mx_hosts (check_dns_health ''gmail.com'' gmail_dns)) True (conn gmail_world))
          True (rcpt gmail_world))
   \<and> apply_provider_rules ''gmail.com''
       (check_smtp_rcpt ''someone@gmail.com'' ''gmail.com''
          (mx_hosts (check_dns_health ''gmail.com'' gmail_dns))
          (check_smtp_connection ''gmail.com''
             (mx_hosts (check_dns_health ''gmail.com'' gmail_dns)) True (conn gmail_world))
          True (rcpt gmail_world)) 63 =
       \<lparr> provider = Some ''gmail.com'', rule_applied = True, score_adjusted = True,
         adjusted_score = 55 \<rparr>
   \<and> verify_email ''someone@gmail.com'' True False gmail_world = Inr gmail_result
   \<and> score gmail_result = 83 \<and> status gmail_result = ''likely_valid''"
  by (simp add: rcpt_gmail plbr_gmail verify_gmail gmail_result_def default_not_accepted)

subsection \<open>C3: score, confidence and status\<close>

text \<open>
  Claim C3 as amended. Every result \<open>verify_email\<close> returns has a score between 0 and 100
  and \<open>confidence = score / 100\<close>. When the verification runs past the DNS stage, the
  status is the bucket of the score: \<open>valid\<close> from 90, \<open>likely_valid\<close> from 70,
  \<open>uncertain\<close> from 50, \<open>likely_invalid\<close> from 20, \<open>invalid\<close> below. At the two
  early returns the status is \<open>invalid\<close> whatever the score: 0 for invalid syntax, and
  between 7 and 48 when the domain does not exist.
\<close>

theorem score_confidence_status:
  assumes "verify_email addr fast_mode internet_checks w = Inr r"
  shows "0 \<le> score r \<and> score r \<le> 100 \<and> confidence r = real_of_int (score r) / 100 \<and>
         (if reason r = ''Invalid email syntax'' then status r = ''invalid'' \<and> score r = 0
          else if reason r = ''Domain does not exist''
          then status r = ''invalid'' \<and> 7 \<le> score r \<and> score r \<le> 48
          else status r =
                 (if 90 \<le> score r then ''valid'' else if 70 \<le> score r then ''likely_valid''
                  else if 50 \<le> score r then ''uncertain''
                  else if 20 \<le> score r then ''likely_invalid'' else ''invalid''))"
proof -
  from verify_email_cases [OF assms]
  consider (gate) "r = syntax_rejection addr"
    | (nodomain) domain where "r = dns_rejection addr (dns_points (check_dns_health domain (dns w)))"
    | (full) domain a k where "r = finish addr domain a k"
    by blast
  then show ?thesis
  proof cases
    case gate
    then show ?thesis by (simp add: syntax_rejection_def)
  next
    case nodomain
    with dns_points_bounds [of domain "dns w"] show ?thesis
      by (simp add: dns_rejection_def)
  next
    case full
    have "reason r \<noteq> ''Invalid email syntax''" "reason r \<noteq> ''Domain does not exist''"
      unfolding full by (simp_all add: finish_props bucket_def)
    moreover have "status r = fst (bucket (score r))"
      "confidence r = real_of_int (score r) / 100" "0 \<le> score r" "score r \<le> 100"
      unfolding full by (simp_all add: finish_props)
    ultimately show ?thesis by (simp add: bucket_cases)
  qed
qed

theorem score_confidence_status_witness:
  "verify_email ''nobody@example.org'' True False unknown_user_world = Inr unknown_user_result
   \<and> 0 \<le> score unknown_user_result \<and> score unknown_user_result \<le> 100
   \<and> confidence unknown_user_result = real_of_int (score unknown_user_result) / 100
   \<and> 90 \<le> score unknown_user_result \<and> status unknown_user_result = ''valid''
   \<and> verify_email ''info@example.net'' True False txt_only_world =
         Inr (dns_rejection ''info@example.net'' 18)
   \<and> status (dns_rejection ''info@example.net'' 18) = ''invalid''
   \<and> 7 \<le> score (dns_rejection ''info@example.net'' 18)
   \<and> score (dns_rejection ''info@example.net'' 18) \<le> 48"
  using score_confidence_status [OF verify_unknown_user]
    score_confidence_status [OF verify_txt_only] verify_unknown_user verify_txt_only
  by (simp add: unknown_user_result_def dns_rejection_def)

text \<open>The claim as stated fails at the DNS stage: a domain that has only TXT records is
  returned with score 28 and status \<open>invalid\<close>, and the bucket of 28 is
  \<open>likely_invalid\<close>.\<close>

theorem status_not_bucket_counterexample:
  "verify_email ''info@example.net'' True False txt_only_world =
     Inr \<lparr> res_email = ''info@example.net'', status = ''invalid'', score = 28,
           confidence = 28 / 100, reason = ''Domain does not exist'',
           details = [(''syntax'', 10), (''dns_health'', 18)], risky = False \<rparr>
   \<and> fst (bucket 28) = ''likely_invalid''"
  by (simp add: verify_txt_only dns_rejection_def bucket_def)

subsection \<open>C4: exceptions of the probes\<close>

text \<open>
  Claim C4, that no exception raised inside a probe leaves \<open>verify_email\<close>, fails on the
  code. A 550 reply that does not say \<open>user unknown\<close> sets \<open>rejected\<close> and leaves the
  error \<open>None\<close>; \<open>_analyze_blocklist_behavior\<close> then calls \<open>.lower()\<close> on it, and the
  \<open>AttributeError\<close> leaves \<open>verify_email\<close>.
\<close>

theorem blocklist_probe_raises:
  "rejected (check_smtp_rcpt ''nobody@example.org'' ''example.org''
        [''mx1.example.org'', ''mx2.example.org''] open_connection True policy_reply)
   \<and> rcpt_error (check_smtp_rcpt ''nobody@example.org'' ''example.org''
        [''mx1.example.org'', ''mx2.example.org''] open_connection True policy_reply) = None
   \<and> analyze_blocklist_behavior
        (check_smtp_rcpt ''nobody@example.org'' ''example.org''
           [''mx1.example.org'', ''mx2.example.org''] open_connection True policy_reply)
        open_connection = Inl AttributeError
   \<and> verify_email ''nobody@example.org'' True False policy_block_world = Inl AttributeError"
  by (simp add: rcpt_policy_reply verify_policy_block analyze_blocklist_behavior_def)


subsection \<open>C5: the classification of the RCPT reply\<close>




subsection \<open>C6: rejection at the DNS stage\<close>

text \<open>
  Claim C6 as amended. For an address that passes the syntax gate, \<open>verify_email\<close>
  returns at the DNS stage, with status \<open>invalid\<close> and the points so far as score,
  exactly when \<open>domain_exists\<close> is false, that is when the A lookup fails and the A
  lookup repeated after an MX \<open>NoAnswer\<close> fails too; MX records play no part in it. For
  a domain every query of which is answered \<open>NXDOMAIN\<close> the score is the 10 syntax points
  plus the points for the DNS response time: 13 under 300 ms, 7 over 800 ms, 10 otherwise.
\<close>

theorem dns_stage_rejection:
  assumes "syntax_valid (check_syntax addr)" and "split_at (lower addr) = Some (lp, domain)"
    and "dns_res = check_dns_health domain (dns w)"
  shows "(domain_exists dns_res \<longleftrightarrow>
            answered (a_lookup (dns w))
            \<or> (mx_lookup (dns w) = NoAnswer \<and> answered (a_fallback (dns w))))
       \<and> (\<not> domain_exists dns_res \<longrightarrow>
            verify_email addr fast_mode internet_checks w =
              Inr (dns_rejection addr (dns_points dns_res)))
       \<and> (domain_exists dns_res \<longrightarrow>
            (\<forall>r. verify_email addr fast_mode internet_checks w = Inr r \<longrightarrow>
                 reason r \<noteq> ''Domain does not exist''))
       \<and> (a_lookup (dns w) = NXDOMAIN \<and> mx_lookup (dns w) = NXDOMAIN
            \<and> txt_lookup (dns w) = NXDOMAIN \<and> dmarc_lookup (dns w) = NXDOMAIN
            \<and> (\<forall>selector. dkim_lookup (dns w) selector = NXDOMAIN) \<longrightarrow>
            \<not> domain_exists dns_res \<and>
            10 + dns_points dns_res =
              (if dns_time (dns w) < 300 then 13 else if 800 < dns_time (dns w) then 7 else 10))"
proof (intro conjI impI allI)
  show "domain_exists dns_res \<longleftrightarrow>
            answered (a_lookup (dns w))
            \<or> (mx_lookup (dns w) = NoAnswer \<and> answered (a_fallback (dns w)))"
    unfolding assms(3)
    by (cases "mx_lookup (dns w)") (simp_all add: check_dns_health_def Let_def)
next
  have pts: "syntax_points (check_syntax addr) = 10"
    using assms(1) by (simp add: check_syntax_def Let_def)
  assume "\<not> domain_exists dns_res"
  then show "verify_email addr fast_mode internet_checks w =
              Inr (dns_rejection addr (dns_points dns_res))"
    using assms pts by (simp add: verify_email_def add_def dns_rejection_def Let_def)
next
  fix r
  assume ex: "domain_exists dns_res"
    and v: "verify_email addr fast_mode internet_checks w = Inr r"
  from verify_email_cases [OF v] assms ex
  obtain a k where "r = finish addr domain a k" by auto
  then show "reason r \<noteq> ''Domain does not exist''"
    by (simp add: finish_props bucket_def)
next
  assume nx: "a_lookup (dns w) = NXDOMAIN \<and> mx_lookup (dns w) = NXDOMAIN
            \<and> txt_lookup (dns w) = NXDOMAIN \<and> dmarc_lookup (dns w) = NXDOMAIN
            \<and> (\<forall>selector. dkim_lookup (dns w) selector = NXDOMAIN)"
  then show "\<not> domain_exists dns_res"
    unfolding assms(3) by (simp add: check_dns_health_def Let_def)
  from nx show "10 + dns_points dns_res =
              (if dns_time (dns w) < 300 then 13 else if 800 < dns_time (dns w) then 7 else 10)"
    unfolding assms(3) by (simp add: check_dns_health_def common_selectors_def Let_def)
qed

text \<open>The theorem on the network where nothing answers, and on \<open>example.org\<close>.\<close>

theorem dns_stage_rejection_witness:
  "syntax_valid (check_syntax ''user@example-no-such-tld.invalid'')
   \<and> split_at (lower ''user@example-no-such-tld.invalid'') =
        Some (''user'', ''example-no-such-tld.invalid'')
   \<and> a_lookup (dns quiet_world) = NXDOMAIN \<and> mx_lookup (dns quiet_world) = NXDOMAIN
   \<and> txt_lookup (dns quiet_world) = NXDOMAIN \<and> dmarc_lookup (dns quiet_world) = NXDOMAIN
   \<and> (\<forall>selector. dkim_lookup (dns quiet_world) selector = NXDOMAIN)
   \<and> \<not> domain_exists (check_dns_health ''example-no-such-tld.invalid'' (dns quiet_world))
   \<and> verify_email ''user@example-no-such-tld.invalid'' True False quiet_world =
        Inr (dns_rejection ''user@example-no-such-tld.invalid'' 3)
   \<and> score (dns_rejection ''user@example-no-such-tld.invalid'' 3) = 13
   \<and> syntax_valid (check_syntax ''nobody@example.org'')
   \<and> split_at (lower ''nobody@example.org'') = Some (''nobody'', ''example.org'')
   \<and> domain_exists (check_dns_health ''example.org'' (dns unknown_user_world))
   \<and> verify_email ''nobody@example.org'' True False unknown_user_world = Inr unknown_user_result
   \<and> reason unknown_user_result \<noteq> ''Domain does not exist''"
proof -
  have s1: "syntax_valid (check_syntax ''user@example-no-such-tld.invalid'')"
    by (simp add: syntax_nxdomain)
  have s2: "syntax_valid (check_syntax ''nobody@example.org'')"
    by (simp add: syntax_nobody)
  have nx: "a_lookup (dns quiet_world) = NXDOMAIN \<and> mx_lookup (dns quiet_world) = NXDOMAIN
   \<and> txt_lookup (dns quiet_world) = NXDOMAIN \<and> dmarc_lookup (dns quiet_world) = NXDOMAIN
   \<and> (\<forall>selector. dkim_lookup (dns quiet_world) selector = NXDOMAIN)"
    by (simp add: world_dns quiet_dns_def)
  have ex: "domain_exists (check_dns_health ''example.org'' (dns unknown_user_world))"
    by (simp add: world_dns dns_healthy)
  from dns_stage_rejection [OF s1 split_nxdomain refl, of quiet_world True False] nx
  have a: "\<not> domain_exists (check_dns_health ''example-no-such-tld.invalid'' (dns quiet_world))
    \<and> verify_email ''user@example-no-such-tld.invalid'' True False quiet_world =
        Inr (dns_rejection ''user@example-no-such-tld.invalid''
               (dns_points (check_dns_health ''example-no-such-tld.invalid'' (dns quiet_world))))"
    by blast
  from dns_stage_rejection [OF s2 split_nobody refl, of unknown_user_world True False] ex
    verify_unknown_user
  have b: "reason unknown_user_result \<noteq> ''Domain does not exist''"
    by blast
  from s1 s2 split_nxdomain split_nobody nx ex a b verify_unknown_user show ?thesis
    by (simp add: world_dns dns_quiet dns_rejection_def)
qed

text \<open>The claim as stated fails twice. A mail-only domain, with MX records and no A
  record, is rejected at the DNS stage; and the score of a domain unknown to the DNS is
  13 when the resolver answers within 300 ms, not the 10 syntax points alone.\<close>

theorem mx_only_domain_rejected_counterexample:
  "mx_present (check_dns_health ''example.net'' (dns mx_only_world))
   \<and> verify_email ''info@example.net'' True False mx_only_world =
       Inr \<lparr> res_email = ''info@example.net'', status = ''invalid'', score = 33,
             confidence = 33 / 100, reason = ''Domain does not exist'',
             details = [(''syntax'', 10), (''dns_health'', 23)], risky = False \<rparr>
   \<and> verify_email ''user@example-no-such-tld.invalid'' True False quiet_world =
       Inr \<lparr> res_email = ''user@example-no-such-tld.invalid'', status = ''invalid'', score = 13,
             confidence = 13 / 100, reason = ''Domain does not exist'',
             details = [(''syntax'', 10), (''dns_health'', 3)], risky = False \<rparr>"
  by (simp add: world_dns dns_mx_only verify_mx_only verify_nxdomain dns_rejection_def)

subsection \<open>C7: \<open>mx_hosts\<close> and \<open>mx_present\<close>\<close>

text \<open>
  Claim C7 as amended. \<open>mx_present\<close> is true exactly when the MX query is answered, and
  then \<open>mx_hosts\<close> lists the exchanges of the answer with their trailing dots removed;
  since an answer holds at least one record, an empty \<open>mx_hosts\<close> implies that
  \<open>mx_present\<close> is false. When \<open>mx_present\<close> is false, \<open>mx_hosts\<close> is empty unless the
  MX query raised \<open>NoAnswer\<close> and the A lookup that follows succeeded: then \<open>mx_hosts\<close>
  is the domain itself.
\<close>

theorem mx_hosts_and_mx_present:
  assumes "\<forall>records. mx_lookup d = Answer records \<longrightarrow> records \<noteq> []"
  shows "(mx_present (check_dns_health domain d) \<longleftrightarrow> (\<exists>records. mx_lookup d = Answer records))
       \<and> (\<forall>records. mx_lookup d = Answer records \<longrightarrow>
              mx_hosts (check_dns_health domain d) = map rstrip_dot records)
       \<and> (mx_hosts (check_dns_health domain d) = [] \<longrightarrow> \<not> mx_present (check_dns_health domain d))
       \<and> (\<not> mx_present (check_dns_health domain d) \<longrightarrow>
              mx_hosts (check_dns_health domain d) =
                (if mx_lookup d = NoAnswer \<and> answered (a_fallback d) then [domain] else []))"
  using assms
  by (cases "mx_lookup d") (simp_all add: check_dns_health_def Let_def)

text \<open>The theorem on \<open>example.org\<close>, on the network where nothing answers, and on a domain
  with an A record only.\<close>

theorem mx_hosts_and_mx_present_witness:
  "mx_lookup healthy_dns = Answer [''mx1.example.org.'', ''mx2.example.org.'']
   \<and> mx_present (check_dns_health ''example.org'' healthy_dns)
   \<and> mx_hosts (check_dns_health ''example.org'' healthy_dns) =
        [''mx1.example.org'', ''mx2.example.org'']
   \<and> mx_lookup quiet_dns = NXDOMAIN
   \<and> \<not> mx_present (check_dns_health ''example-no-such-tld.invalid'' quiet_dns)
   \<and> mx_hosts (check_dns_health ''example-no-such-tld.invalid'' quiet_dns) = []
   \<and> mx_lookup a_only_dns = NoAnswer \<and> answered (a_fallback a_only_dns)
   \<and> \<not> mx_present (check_dns_health ''example.net'' a_only_dns)
   \<and> mx_hosts (check_dns_health ''example.net'' a_only_dns) = [''example.net'']"
proof -
  have h: "\<forall>records. mx_lookup healthy_dns = Answer records \<longrightarrow> records \<noteq> []"
    by (simp add: healthy_dns_def)
  have q: "\<forall>records. mx_lookup quiet_dns = Answer records \<longrightarrow> records \<noteq> []"
    by (simp add: quiet_dns_def)
  have a: "\<forall>records. mx_lookup a_only_dns = Answer records \<longrightarrow> records \<noteq> []"
    by (simp add: a_only_dns_def)
  have "mx_present (check_dns_health ''example.org'' healthy_dns)
   \<and> mx_hosts (check_dns_health ''example.org'' healthy_dns) =
        [''mx1.example.org'', ''mx2.example.org'']"
    using mx_hosts_and_mx_present [OF h, of "''example.org''"]
    by (simp add: healthy_dns_def rstrip_dot_def)
  moreover have "\<not> mx_present (check_dns_health ''example-no-such-tld.invalid'' quiet_dns)
   \<and> mx_hosts (check_dns_health ''example-no-such-tld.invalid'' quiet_dns) = []"
    using mx_hosts_and_mx_present [OF q, of "''example-no-such-tld.invalid''"]
    by (simp add: quiet_dns_def)
  moreover have "\<not> mx_present (check_dns_health ''example.net'' a_only_dns)
   \<and> mx_hosts (check_dns_health ''example.net'' a_only_dns) = [''example.net'']"
    using mx_hosts_and_mx_present [OF a, of "''example.net''"]
    by (simp add: a_only_dns_def)
  moreover have "mx_lookup healthy_dns = Answer [''mx1.example.org.'', ''mx2.example.org.'']"
    "mx_lookup quiet_dns = NXDOMAIN" "mx_lookup a_only_dns = NoAnswer"
    "answered (a_fallback a_only_dns)"
    by (simp_all add: healthy_dns_def quiet_dns_def a_only_dns_def)
  ultimately show ?thesis by blast
qed

text \<open>The claim as stated fails on the fallback path: the domain has an A record and no
  MX record, \<open>mx_present\<close> stays false and \<open>mx_hosts\<close> is not empty.\<close>

theorem fallback_mx_hosts_counterexample:
  "check_dns_health ''example.net'' a_only_dns =
     \<lparr> domain_exists = True, mx_present = False, spf_exists = False, dkim_exists = False,
       dmarc_exists = False, dns_response_time_ms = 120, dns_points = 3,
       mx_hosts = [''example.net''] \<rparr>"
  by (rule dns_a_only)

subsection \<open>C8: the syntax gate\<close>

text \<open>
  What the gate accepts, by the shape of the specification: the addresses of that shape,
  and the addresses of that shape followed by one newline, as \<open>$\<close> of Python's \<open>re\<close> also
  matches before a newline that ends the string.
\<close>

lemma syntax_gate_accepts:
  "syntax_valid (check_syntax addr) \<longleftrightarrow>
     address_shape addr
     \<or> (addr \<noteq> [] \<and> last addr = CHR 0x0A \<and> address_shape (butlast addr))"
  by (simp add: check_syntax_def Let_def re_match_to_end_def matches_email_pattern)

text \<open>An input the gate refuses is returned at once, whatever the mode and the network.\<close>

lemma syntax_gate_refusal:
  assumes "\<not> syntax_valid (check_syntax addr)"
  shows "verify_email addr fast_mode internet_checks w = Inr (syntax_rejection addr)"
  using assms
  by (simp add: verify_email_def check_syntax_def add_def syntax_rejection_def Let_def)

text \<open>An input the gate accepts has 10 points, the first entry of the details of every
  result.\<close>

lemma syntax_gate_points:
  assumes "syntax_valid (check_syntax addr)"
  shows "syntax_points (check_syntax addr) = 10"
  using assms by (simp add: check_syntax_def Let_def split: if_splits)

lemma syntax_entry_first:
  assumes valid: "syntax_valid (check_syntax addr)"
    and v: "verify_email addr fast_mode internet_checks w = Inr r"
  shows "\<exists>rest. details r = (''syntax'', 10) # rest"
proof -
  from verify_email_cases [OF v] valid
  consider (nodomain) domain where
        "r = dns_rejection addr (dns_points (check_dns_health domain (dns w)))"
    | (full) domain a k where
        "run_probes addr domain fast_mode internet_checks w
              (mx_hosts (check_dns_health domain (dns w)))
              \<lparr> sc = 10 + dns_points (check_dns_health domain (dns w)),
                det = [(''syntax'', 10),
                       (''dns_health'', dns_points (check_dns_health domain (dns w)))] \<rparr>
              = Inr (a, k)" "r = finish addr domain a k"
    by auto
  then show ?thesis
  proof cases
    case nodomain
    then show ?thesis by (simp add: dns_rejection_def)
  next
    case full
    from full(1) have "\<exists>rest. det a = (''syntax'', 10) # rest"
      by (rule run_probes_det_prefix)
    with full(2) show ?thesis by (simp add: finish_props)
  qed
qed

text \<open>The same network as \<open>quiet_world\<close>, its resolver answering after 900 ms.\<close>

lemma dns_quiet_slow:
  "check_dns_health domain (quiet_dns\<lparr>dns_time := 900\<rparr>) =
     \<lparr> domain_exists = False, mx_present = False, spf_exists = False, dkim_exists = False,
       dmarc_exists = False, dns_response_time_ms = 900, dns_points = - 3, mx_hosts = [] \<rparr>"
  by (simp add: probe_defs string_defs world_defs Let_def cong: let_weak_cong)

lemma verify_newline_slow:
  "verify_email newline_address True False (quiet_world\<lparr>dns := quiet_dns\<lparr>dns_time := 900\<rparr>\<rparr>) =
     Inr (dns_rejection newline_address (- 3))"
  by (simp add: verify_email_def syntax_newline split_newline dns_quiet_slow add_def
        dns_rejection_def Let_def cong: let_weak_cong)

text \<open>
  Claim C8, that every input outside the shape of the syntax gate is returned with status
  \<open>invalid\<close>, score 0 and confidence 0 and without a DNS, SMTP or HTTP probe, fails on the
  code. The string \<open>user@example.org\<close> followed by a newline is not of the shape
  \<open>local @ label(.label)+\<close>, whose last label is made of letters; \<open>_check_syntax\<close> accepts it with
  10 points, as \<open>re.match\<close> lets the \<open>$\<close> of the pattern match before the newline. The
  DNS probe then runs on the domain that ends in the newline: on a network where
  nothing answers the result has score 13 and confidence 0.13, when the resolver answers
  fast, and score 7 when it answers slowly, and its details hold the entry of the DNS
  probe.
\<close>

theorem trailing_newline_passes_syntax_gate:
  "\<not> address_shape newline_address
   \<and> check_syntax newline_address =
       \<lparr> syntax_valid = True, syntax_points = 10, syntax_reason = ''Valid syntax'' \<rparr>
   \<and> verify_email newline_address True False quiet_world =
       Inr \<lparr> res_email = newline_address, status = ''invalid'', score = 13,
             confidence = 13 / 100, reason = ''Domain does not exist'',
             details = [(''syntax'', 10), (''dns_health'', 3)], risky = False \<rparr>
   \<and> verify_email newline_address True False
         (quiet_world\<lparr>dns := quiet_dns\<lparr>dns_time := 900\<rparr>\<rparr>) =
       Inr \<lparr> res_email = newline_address, status = ''invalid'', score = 7,
             confidence = 7 / 100, reason = ''Domain does not exist'',
             details = [(''syntax'', 10), (''dns_health'', - 3)], risky = False \<rparr>"
proof -
  have "\<not> address_shape newline_address"
    using pattern_rejects_newline by (simp add: matches_email_pattern)
  then show ?thesis
    by (simp add: syntax_newline verify_newline verify_newline_slow dns_rejection_def)
qed

subsection \<open>C10: the latency probe without a measurement\<close>

text \<open>
  When the RCPT dialogue never reached the reply to RCPT TO, \<open>response_time_sec\<close> is
  still 0 and the latency probe classifies the session as \<open>instant_reject\<close>, with -10
  points; every result \<open>verify_email\<close> returns, when an MX host was selected and
  \<open>fast_mode\<close> is off, then holds that entry.
\<close>

lemma unmeasured_latency_entry:
  assumes "syntax_valid (check_syntax addr)" and "split_at (lower addr) = Some (lp, domain)"
    and "dns_res = check_dns_health domain (dns w)" and "domain_exists dns_res"
    and "smtp_conn = check_smtp_connection domain (mx_hosts dns_res) False (conn w)"
    and "truthy (mx_used smtp_conn)"
    and "never_measured (rcpt w)"
    and "verify_email addr False internet_checks w = Inr r"
  shows "response_time_sec (timing
           (check_smtp_rcpt addr domain (mx_hosts dns_res) smtp_conn False (rcpt w))) = 0
       \<and> analyze_connection_latency smtp_conn
           (check_smtp_rcpt addr domain (mx_hosts dns_res) smtp_conn False (rcpt w)) =
           \<lparr> latency_points = - 10, latency_pattern = ''instant_reject'' \<rparr>
       \<and> (''latency_fingerprint'', - 10) \<in> set (details r)"
proof -
  have zero: "response_time_sec (timing
           (check_smtp_rcpt addr domain (mx_hosts dns_res) smtp_conn False (rcpt w))) = 0"
    by (rule unmeasured_time [OF assms(7)])
  then have lat: "analyze_connection_latency smtp_conn
           (check_smtp_rcpt addr domain (mx_hosts dns_res) smtp_conn False (rcpt w)) =
           \<lparr> latency_points = - 10, latency_pattern = ''instant_reject'' \<rparr>"
    by (simp add: analyze_connection_latency_def Let_def)
  from verify_email_cases [OF assms(8)] assms(1-4)
  obtain a k where run: "run_probes addr domain False internet_checks w (mx_hosts dns_res)
              \<lparr> sc = 10 + dns_points dns_res,
                det = [(''syntax'', 10), (''dns_health'', dns_points dns_res)] \<rparr> = Inr (a, k)"
    and r: "r = finish addr domain a k"
    by auto
  from run_probes_latency_entry [OF run] assms(5,6) lat
  have "(''latency_fingerprint'', - 10) \<in> set (det a)" by simp
  with r zero lat show ?thesis by (simp add: finish_props)
qed

text \<open>So it is when the dialogue times out: the exception is recorded as the error of the
  RCPT result, and a result is returned.\<close>

lemma unmeasured_latency_entry_on_timeout:
  "never_measured (rcpt timeout_world)
   \<and> verify_email ''nobody@example.org'' False False timeout_world = Inr timeout_result
   \<and> (''latency_fingerprint'', - 10) \<in> set (details timeout_result)"
proof -
  have s: "syntax_valid (check_syntax ''nobody@example.org'')"
    by (simp add: syntax_nobody)
  have ex: "domain_exists (check_dns_health ''example.org'' (dns timeout_world))"
    by (simp add: world_dns dns_healthy)
  have used: "truthy (mx_used (check_smtp_connection ''example.org''
        (mx_hosts (check_dns_health ''example.org'' (dns timeout_world))) False
        (conn timeout_world)))"
    by (simp add: world_dns dns_healthy connection_timeout open_connection_def)
  have nm: "never_measured (rcpt timeout_world)"
    by (simp add: timeout_world_def)
  from unmeasured_latency_entry [OF s split_nobody refl ex refl used nm verify_timeout]
  have "(''latency_fingerprint'', - 10) \<in> set (details timeout_result)"
    by blast
  with nm verify_timeout show ?thesis by blast
qed

text \<open>
  Claim C10, that the latency probe contributes -10 points whenever an MX host was
  selected, \<open>fast_mode\<close> is off and the RCPT dialogue was aborted before RCPT TO, fails on
  the code. For \<open>nobody@example.org\<close> the connection probe selects \<open>mx1.example.org\<close>, the
  server refuses MAIL FROM, and \<open>_check_smtp_rcpt\<close> returns its initial result:
  \<open>response_time_sec\<close> 0, for which the latency probe would give -10 points as an
  \<open>instant_reject\<close>, and \<open>error\<close> \<open>None\<close>. The strictness probe, which runs before the latency
  probe, calls \<open>lower\<close> on that \<open>None\<close>: \<open>verify_email\<close> raises \<open>AttributeError\<close>, no result
  is returned and the latency probe is never called.
\<close>

theorem mail_from_refused_raises_before_latency:
  "mx_used (check_smtp_connection ''example.org'' [''mx1.example.org'', ''mx2.example.org'']
       False (conn refused_world)) = Some ''mx1.example.org''
   \<and> rcpt refused_world = Mail_from_refused
   \<and> check_smtp_rcpt ''nobody@example.org'' ''example.org''
       [''mx1.example.org'', ''mx2.example.org'']
       (check_smtp_connection ''example.org'' [''mx1.example.org'', ''mx2.example.org'']
          False (conn refused_world))
       False (rcpt refused_world) = rcpt_default
   \<and> response_time_sec (timing rcpt_default) = 0
   \<and> rcpt_error rcpt_default = None
   \<and> analyze_connection_latency
       (check_smtp_connection ''example.org'' [''mx1.example.org'', ''mx2.example.org'']
          False (conn refused_world)) rcpt_default =
       \<lparr> latency_points = - 10, latency_pattern = ''instant_reject'' \<rparr>
   \<and> check_smtp_strictness
       (check_smtp_connection ''example.org'' [''mx1.example.org'', ''mx2.example.org'']
          False (conn refused_world)) rcpt_default = Inl AttributeError
   \<and> verify_email ''nobody@example.org'' False False refused_world = Inl AttributeError"
proof -
  have c: "check_smtp_connection ''example.org'' [''mx1.example.org'', ''mx2.example.org'']
       False (conn refused_world) = open_connection\<lparr>tls_successful := True, conn_points := 15\<rparr>"
    by (rule connection_refused)
  have used: "mx_used (check_smtp_connection ''example.org''
       [''mx1.example.org'', ''mx2.example.org''] False (conn refused_world)) =
       Some ''mx1.example.org''"
    by (simp add: c open_connection_def)
  have refused: "rcpt refused_world = Mail_from_refused"
    by (simp add: refused_world_def)
  have probe: "check_smtp_rcpt ''nobody@example.org'' ''example.org''
       [''mx1.example.org'', ''mx2.example.org'']
       (check_smtp_connection ''example.org'' [''mx1.example.org'', ''mx2.example.org'']
          False (conn refused_world))
       False (rcpt refused_world) = rcpt_default"
    unfolding c by (rule rcpt_refused)
  have zero: "response_time_sec (timing rcpt_default) = 0"
    by (simp add: rcpt_default_def)
  have none: "rcpt_error rcpt_default = None"
    by (simp add: rcpt_default_def)
  have latency: "analyze_connection_latency
       (check_smtp_connection ''example.org'' [''mx1.example.org'', ''mx2.example.org'']
          False (conn refused_world)) rcpt_default =
       \<lparr> latency_points = - 10, latency_pattern = ''instant_reject'' \<rparr>"
    by (simp add: analyze_connection_latency_def zero Let_def)
  have strictness: "check_smtp_strictness
       (check_smtp_connection ''example.org'' [''mx1.example.org'', ''mx2.example.org'']
          False (conn refused_world)) rcpt_default = Inl AttributeError"
    by (simp add: check_smtp_strictness_def none Let_def)
  show ?thesis
    by (intro conjI used refused probe zero none latency strictness verify_refused)
qed

end
